theory Spec2Isabelle
  imports Complex_Main "HOL-Library.Log_Nat"
begin

section \<open>Application errors\<close>

text \<open>
  \<^verbatim>\<open>utils/errorHandler.js\<close>: an \<^verbatim>\<open>AppError\<close> carries a message and an HTTP status code;
  \<^verbatim>\<open>createError(message, statusCode)\<close> builds one. A handler that calls
  \<^verbatim>\<open>next(createError(...))\<close> and returns is modelled by the value \<open>Inl\<close> of that error.
\<close>

datatype AppError = AppError (message: string) (statusCode: nat)

definition createError :: "string \<Rightarrow> nat \<Rightarrow> AppError" where
  "createError msg code = AppError msg code"

section \<open>JavaScript numbers\<close>

text \<open>
  A JavaScript number is an IEEE-754 double: \<open>Dyadic m e\<close> is the finite number
  \<open>m * 2 ^ e\<close> (a double has such a form with \<open>\<bar>m\<bar> < 2 ^ 53\<close> and
  \<open>- 1074 \<le> e \<le> 971\<close>), beside the two infinities and \<^verbatim>\<open>NaN\<close>. The two zeros are not
  told apart: they compare equal and print alike.
\<close>

datatype double = Dyadic int int | PlusInf | MinusInf | NotANumber

text \<open>
  Rounding of the exact value \<open>M * 2 ^ e\<close> to the nearest double, ties to the even
  mantissa: \<open>k\<close> low bits of the magnitude are dropped when it has more than 53 bits or
  the exponent lies below the smallest one; a result of 2 to the 1024 or more is an
  infinity.
\<close>

definition dropped_bits :: "int \<Rightarrow> int \<Rightarrow> int" where
  "dropped_bits a e = max (bitlen a - 53) (- 1074 - e)"

definition round_half_even :: "int \<Rightarrow> nat \<Rightarrow> int" where
  "round_half_even a k =
     (let q = a div 2 ^ k; r = a mod 2 ^ k; half = 2 ^ (k - 1)
      in if r > half \<or> (r = half \<and> odd q) then q + 1 else q)"

definition rounded_mantissa :: "int \<Rightarrow> int \<Rightarrow> int" where
  "rounded_mantissa a e =
     (let k = dropped_bits a e in if k \<le> 0 then a else round_half_even a (nat k))"

definition rounded_exponent :: "int \<Rightarrow> int \<Rightarrow> int" where
  "rounded_exponent a e = (let k = dropped_bits a e in if k \<le> 0 then e else e + k)"

definition round_double :: "int \<Rightarrow> int \<Rightarrow> double" where
  "round_double M e =
     (let q = rounded_mantissa \<bar>M\<bar> e; e' = rounded_exponent \<bar>M\<bar> e
      in if bitlen q + e' > 1024 then (if M < 0 then MinusInf else PlusInf)
         else Dyadic (if M < 0 then - q else q) e')"

text \<open>The operators \<^verbatim>\<open>+\<close>, unary and binary \<^verbatim>\<open>-\<close>, \<^verbatim>\<open>x < 0\<close> and \<^verbatim>\<open>Math.max(0, x)\<close>.\<close>

fun js_add :: "double \<Rightarrow> double \<Rightarrow> double" where
  "js_add (Dyadic m1 e1) (Dyadic m2 e2) =
     (let e = min e1 e2 in round_double (m1 * 2 ^ nat (e1 - e) + m2 * 2 ^ nat (e2 - e)) e)"
| "js_add NotANumber y = NotANumber"
| "js_add x NotANumber = NotANumber"
| "js_add PlusInf MinusInf = NotANumber"
| "js_add MinusInf PlusInf = NotANumber"
| "js_add PlusInf y = PlusInf"
| "js_add x PlusInf = PlusInf"
| "js_add MinusInf y = MinusInf"
| "js_add x MinusInf = MinusInf"

fun js_neg :: "double \<Rightarrow> double" where
  "js_neg (Dyadic m e) = Dyadic (- m) e"
| "js_neg PlusInf = MinusInf"
| "js_neg MinusInf = PlusInf"
| "js_neg NotANumber = NotANumber"

definition js_sub :: "double \<Rightarrow> double \<Rightarrow> double" where
  "js_sub x y = js_add x (js_neg y)"

fun less_zero :: "double \<Rightarrow> bool" where
  "less_zero (Dyadic m e) = (m < 0)"
| "less_zero MinusInf = True"
| "less_zero PlusInf = False"
| "less_zero NotANumber = False"

definition Math_max_0 :: "double \<Rightarrow> double" where
  "Math_max_0 x =
     (if x = NotANumber then NotANumber else if less_zero x then Dyadic 0 0 else x)"

section \<open>Request values\<close>

text \<open>
  Values of a parsed JSON request body, as far as the handlers inspect them with
  \<^verbatim>\<open>typeof\<close> and comparisons. \<open>JUndefined\<close> is an absent property.
\<close>

datatype js = JUndefined | JNull | JBool bool | JNum double | JStr string | JObject

section \<open>Process configuration and library functions\<close>

text \<open>
  \<^verbatim>\<open>process.env\<close>, read-only after start-up. Expiry windows are in seconds.
\<close>

record env =
  NODE_ENV :: string
  JWT_SECRET :: string
  JWT_EXPIRE :: nat
  JWT_REFRESH_SECRET :: string
  JWT_REFRESH_EXPIRE :: nat

text \<open>
  \<^verbatim>\<open>bcryptjs\<close> salts at random, so hashing and comparing are parameters of the model.
\<close>

record bcrypt =
  bcrypt_hash :: "string \<Rightarrow> string"
  bcrypt_compare :: "string \<Rightarrow> string \<Rightarrow> bool"

section \<open>JSON web tokens\<close>

text \<open>
  \<^verbatim>\<open>jwt.sign(payload, secret, {expiresIn})\<close> of \<^verbatim>\<open>jsonwebtoken\<close> adds the claims
  \<^verbatim>\<open>iat\<close> (the clock in whole seconds) and \<^verbatim>\<open>exp = iat + expiresIn\<close> to the payload and
  signs header and payload with HMAC-SHA256 under the secret. The token is a function
  of payload, clock second and secret only: the code passes no nonce or token id. A
  token is modelled by the claims it carries and the secret that signed it.
\<close>

record refresh_jwt =
  rt_id :: nat
  rt_iat :: nat
  rt_exp :: nat
  rt_key :: string

record access_jwt =
  at_id :: nat
  at_email :: string
  at_role :: string
  at_iat :: nat
  at_exp :: nat
  at_key :: string

definition generateAccessToken :: "env \<Rightarrow> nat \<Rightarrow> nat \<Rightarrow> string \<Rightarrow> string \<Rightarrow> access_jwt" where
  "generateAccessToken e now i em r =
     \<lparr>at_id = i, at_email = em, at_role = r, at_iat = now,
      at_exp = now + JWT_EXPIRE e, at_key = JWT_SECRET e\<rparr>"

definition generateRefreshToken :: "env \<Rightarrow> nat \<Rightarrow> nat \<Rightarrow> refresh_jwt" where
  "generateRefreshToken e now i =
     \<lparr>rt_id = i, rt_iat = now, rt_exp = now + JWT_REFRESH_EXPIRE e,
      rt_key = JWT_REFRESH_SECRET e\<rparr>"

text \<open>
  \<^verbatim>\<open>jwt.verify(token, secret)\<close> throws unless the signature was made with the secret and
  the clock is before \<^verbatim>\<open>exp\<close>; \<open>None\<close> is the throw.
\<close>

definition jwt_verify_refresh :: "env \<Rightarrow> nat \<Rightarrow> refresh_jwt \<Rightarrow> nat option" where
  "jwt_verify_refresh e now t =
     (if rt_key t = JWT_REFRESH_SECRET e \<and> now < rt_exp t then Some (rt_id t) else None)"

section \<open>Schema setters and validators\<close>

text \<open>
  The patterns of the schemas are tested with a matcher by derivatives of regular
  expressions: \<open>residual c r\<close> matches what \<open>r\<close> matches after a leading \<open>c\<close>. All
  patterns of the schemas are anchored at both ends, so a test is a match of the whole
  string.
\<close>

datatype rexp =
    Nothing
  | Empty
  | Cls "char \<Rightarrow> bool"
  | Alt rexp rexp
  | Seq rexp rexp
  | Star rexp

fun accepts_empty :: "rexp \<Rightarrow> bool" where
  "accepts_empty Nothing = False"
| "accepts_empty Empty = True"
| "accepts_empty (Cls P) = False"
| "accepts_empty (Alt r s) = (accepts_empty r \<or> accepts_empty s)"
| "accepts_empty (Seq r s) = (accepts_empty r \<and> accepts_empty s)"
| "accepts_empty (Star r) = True"

fun residual :: "char \<Rightarrow> rexp \<Rightarrow> rexp" where
  "residual c Nothing = Nothing"
| "residual c Empty = Nothing"
| "residual c (Cls P) = (if P c then Empty else Nothing)"
| "residual c (Alt r s) = Alt (residual c r) (residual c s)"
| "residual c (Seq r s) =
     (if accepts_empty r then Alt (Seq (residual c r) s) (residual c s)
      else Seq (residual c r) s)"
| "residual c (Star r) = Seq (residual c r) (Star r)"

definition regex_test :: "rexp \<Rightarrow> string \<Rightarrow> bool" where
  "regex_test r s = accepts_empty (fold residual s r)"

definition Opt :: "rexp \<Rightarrow> rexp" where
  "Opt r = Alt Empty r"

definition Plus :: "rexp \<Rightarrow> rexp" where
  "Plus r = Seq r (Star r)"

fun UpTo :: "nat \<Rightarrow> rexp \<Rightarrow> rexp" where
  "UpTo 0 r = Empty"
| "UpTo (Suc n) r = Opt (Seq r (UpTo n r))"

definition isDigit :: "char \<Rightarrow> bool" where
  "isDigit c = (c \<in> set ''0123456789'')"

definition isWord :: "char \<Rightarrow> bool" where
  "isWord c = (c \<in> set ''abcdefghijklmnopqrstuvwxyzABCDEFGHIJKLMNOPQRSTUVWXYZ0123456789_'')"

text \<open>\<^verbatim>\<open>/^\w+([.-]?\w+)*@\w+([.-]?\w+)*(\.\w{2,3})+$/\<close>\<close>

definition dottedWords :: rexp where
  "dottedWords =
     Seq (Plus (Cls isWord))
         (Star (Seq (Opt (Cls (\<lambda>c. c = CHR ''.'' \<or> c = CHR ''-''))) (Plus (Cls isWord))))"

definition emailPattern :: rexp where
  "emailPattern =
     Seq dottedWords
       (Seq (Cls (\<lambda>c. c = CHR ''@''))
         (Seq dottedWords
           (Plus (Seq (Cls (\<lambda>c. c = CHR ''.''))
                   (Seq (Cls isWord) (Seq (Cls isWord) (Opt (Cls isWord))))))))"

text \<open>\<^verbatim>\<open>/^\+?[1-9]\d{1,14}$/\<close>\<close>

definition phonePattern :: rexp where
  "phonePattern =
     Seq (Opt (Cls (\<lambda>c. c = CHR ''+'')))
       (Seq (Cls (\<lambda>c. c \<in> set ''123456789''))
         (Seq (Cls isDigit) (UpTo 13 (Cls isDigit))))"

text \<open>
  \<^verbatim>\<open>trim: true\<close> strips white space at both ends (written out for blank, tab, line
  feed and carriage return).
\<close>

definition isSpace :: "char \<Rightarrow> bool" where
  "isSpace c = (c = CHR '' '' \<or> c = CHR 0x09 \<or> c = CHR 0x0A \<or> c = CHR 0x0D)"

definition trim :: "string \<Rightarrow> string" where
  "trim s = rev (dropWhile isSpace (rev (dropWhile isSpace s)))"

text \<open>
  The schema declares \<^verbatim>\<open>email\<close> with \<^verbatim>\<open>lowercase: true\<close> and \<^verbatim>\<open>sku\<close> with
  \<^verbatim>\<open>uppercase: true\<close>; the setter runs on stored values and on query filters. Case
  mapping is written out for the ASCII letters.
\<close>

definition toLowerCase :: "string \<Rightarrow> string" where
  "toLowerCase s =
     map (\<lambda>c. case map_of (zip ''ABCDEFGHIJKLMNOPQRSTUVWXYZ'' ''abcdefghijklmnopqrstuvwxyz'') c of
                 Some d \<Rightarrow> d | None \<Rightarrow> c) s"

definition toUpperCase :: "string \<Rightarrow> string" where
  "toUpperCase s =
     map (\<lambda>c. case map_of (zip ''abcdefghijklmnopqrstuvwxyz'' ''ABCDEFGHIJKLMNOPQRSTUVWXYZ'') c of
                 Some d \<Rightarrow> d | None \<Rightarrow> c) s"

text \<open>
  A validator gives the messages of the rules a value breaks, in the order the schema
  lists them. A \<^verbatim>\<open>required\<close> string must be non-empty; \<^verbatim>\<open>match\<close> lets the empty
  string pass.
\<close>

definition validate_user_name :: "string \<Rightarrow> string list" where
  "validate_user_name v =
     (if v = [] then [''Please provide a name''] else []) @
     (if length v > 50 then [''Name cannot be more than 50 characters''] else [])"

definition validate_user_email :: "string \<Rightarrow> string list" where
  "validate_user_email v =
     (if v = [] then [''Please provide an email'']
      else if \<not> regex_test emailPattern v then [''Please provide a valid email''] else [])"

definition validate_user_password :: "string \<Rightarrow> string list" where
  "validate_user_password v =
     (if v = [] then [''Please provide a password''] else []) @
     (if length v < 6 then [''Password must be at least 6 characters''] else [])"

definition validate_user_role :: "string \<Rightarrow> string list" where
  "validate_user_role v =
     (if v \<in> set [''user'', ''admin''] then []
      else [''`'' @ v @ ''` is not a valid enum value for path `role`.''])"

definition validate_user_phone :: "string \<Rightarrow> string list" where
  "validate_user_phone v =
     (if v \<noteq> [] \<and> \<not> regex_test phonePattern v then [''Please provide a valid phone number'']
      else [])"

fun join :: "string \<Rightarrow> string list \<Rightarrow> string" where
  "join sep [] = []"
| "join sep [x] = x"
| "join sep (x # y # ys) = x @ sep @ join sep (y # ys)"

text \<open>
  The error middleware turns a Mongoose \<^verbatim>\<open>ValidationError\<close> into status 400 with the
  messages joined.
\<close>

definition validationError :: "string list \<Rightarrow> AppError" where
  "validationError msgs = createError (join ''. '' msgs) 400"

section \<open>Accounts\<close>

record address =
  street :: "string option"
  city :: "string option"
  state :: "string option"
  zipCode :: "string option"
  country :: "string option"

text \<open>
  \<^verbatim>\<open>models/User.js\<close>. \<open>uid\<close> is \<^verbatim>\<open>_id\<close>; \<open>lastLogin\<close> is a clock value; \<open>None\<close> is
  \<^verbatim>\<open>null\<close> or an unset path.
\<close>

record user =
  uid :: nat
  name :: string
  email :: string
  password :: string
  role :: string
  phone :: "string option"
  address :: "address option"
  avatar :: "string option"
  isActive :: bool
  lastLogin :: "nat option"
  refreshToken :: "refresh_jwt option"

text \<open>
  The user collection, in insertion order. \<^verbatim>\<open>findOne\<close> and \<^verbatim>\<open>findById\<close> return the
  first match; \<^verbatim>\<open>save()\<close> of a loaded document and \<^verbatim>\<open>findByIdAndUpdate\<close> write the
  changed paths of the first document with that id.
\<close>

definition findById :: "nat \<Rightarrow> user list \<Rightarrow> user option" where
  "findById i db = find (\<lambda>u. uid u = i) db"

fun updateById :: "nat \<Rightarrow> (user \<Rightarrow> user) \<Rightarrow> user list \<Rightarrow> user list" where
  "updateById i f [] = []"
| "updateById i f (u # us) = (if uid u = i then f u # us else u # updateById i f us)"

text \<open>
  \<^verbatim>\<open>doc.save()\<close> validates the loaded paths of the document against the schema before
  it writes. The \<^verbatim>\<open>password\<close> path is not loaded by default (\<^verbatim>\<open>select: false\<close>) and
  otherwise holds the stored hash; it is validated where the account is created.
  \<open>save u f db\<close> is the save of the loaded document \<open>u\<close> after the assignments \<open>f\<close>.
\<close>

definition userErrors :: "user \<Rightarrow> string list" where
  "userErrors u =
     validate_user_name (name u) @ validate_user_email (email u) @
     validate_user_role (role u) @
     (case phone u of None \<Rightarrow> [] | Some p \<Rightarrow> validate_user_phone p)"

definition save :: "user \<Rightarrow> (user \<Rightarrow> user) \<Rightarrow> user list \<Rightarrow> AppError + user list" where
  "save u f db =
     (if userErrors (f u) \<noteq> [] then Inl (validationError (userErrors (f u)))
      else Inr (updateById (uid u) f db))"

definition findOneByEmail :: "string \<Rightarrow> user list \<Rightarrow> user option" where
  "findOneByEmail em db = find (\<lambda>u. email u = toLowerCase em) db"

definition findOneByRole :: "string \<Rightarrow> user list \<Rightarrow> user option" where
  "findOneByRole r db = find (\<lambda>u. role u = r) db"

definition matchPassword :: "bcrypt \<Rightarrow> user \<Rightarrow> string \<Rightarrow> bool" where
  "matchPassword bc u enteredPassword = bcrypt_compare bc enteredPassword (password u)"

text \<open>
  \<^verbatim>\<open>User.findByRefreshToken\<close>: verify the token, then load the account it names;
  a token that does not verify gives \<^verbatim>\<open>null\<close>.
\<close>

definition findByRefreshToken :: "env \<Rightarrow> nat \<Rightarrow> refresh_jwt \<Rightarrow> user list \<Rightarrow> user option" where
  "findByRefreshToken e now t db =
     (case jwt_verify_refresh e now t of
        None \<Rightarrow> None
      | Some i \<Rightarrow> findById i db)"

section \<open>Token responses\<close>

record tokenResponse =
  accessToken :: access_jwt
  tr_refreshToken :: refresh_jwt
  tokenType :: string
  expiresIn :: nat

text \<open>\<^verbatim>\<open>utils/tokenUtils.js\<close>, \<^verbatim>\<open>generateTokenResponse(user)\<close>.\<close>

definition generateTokenResponse :: "env \<Rightarrow> nat \<Rightarrow> user \<Rightarrow> tokenResponse" where
  "generateTokenResponse e now u =
     \<lparr>accessToken = generateAccessToken e now (uid u) (email u) (role u),
      tr_refreshToken = generateRefreshToken e now (uid u),
      tokenType = ''Bearer'',
      expiresIn = JWT_EXPIRE e\<rparr>"

section \<open>Authentication handlers\<close>

text \<open>
  Each handler takes the clock (in seconds), the request and the collection, and returns
  the collection after the call together with either the error passed to \<^verbatim>\<open>next\<close> or
  the status and data of the response. The request body of \<^verbatim>\<open>login\<close> has passed the
  route's validator, so both fields are strings.
\<close>

definition login ::
  "env \<Rightarrow> bcrypt \<Rightarrow> nat \<Rightarrow> string \<Rightarrow> string \<Rightarrow> user list
     \<Rightarrow> user list \<times> (AppError + nat \<times> user \<times> tokenResponse)" where
  "login e bc now em pw db =
     (case findOneByEmail em db of
        None \<Rightarrow> (db, Inl (createError ''Invalid email or password'' 401))
      | Some u \<Rightarrow>
          if \<not> isActive u then
            (db, Inl (createError
               ''Your account has been deactivated. Please contact support.'' 401))
          else if \<not> matchPassword bc u pw then
            (db, Inl (createError ''Invalid email or password'' 401))
          else
            let tr = generateTokenResponse e now u;
                upd = (\<lambda>x. x\<lparr>refreshToken := Some (tr_refreshToken tr), lastLogin := Some now\<rparr>)
            in (case save u upd db of
                  Inl err \<Rightarrow> (db, Inl err)
                | Inr db' \<Rightarrow> (db', Inr (200, upd u, tr))))"

text \<open>
  \<^verbatim>\<open>refreshToken\<close> of the authentication controller; the body's \<^verbatim>\<open>refreshToken\<close> is
  \<open>None\<close> when absent or empty.
\<close>

definition refreshToken_handler ::
  "env \<Rightarrow> nat \<Rightarrow> refresh_jwt option \<Rightarrow> user list
     \<Rightarrow> user list \<times> (AppError + nat \<times> tokenResponse)" where
  "refreshToken_handler e now body db =
     (case body of
        None \<Rightarrow> (db, Inl (createError ''Refresh token is required'' 400))
      | Some t \<Rightarrow>
         (case findByRefreshToken e now t db of
            None \<Rightarrow> (db, Inl (createError ''Invalid refresh token'' 401))
          | Some u \<Rightarrow>
              if refreshToken u \<noteq> Some t then
                (db, Inl (createError ''Invalid refresh token'' 401))
              else if \<not> isActive u then
                (db, Inl (createError ''User account is deactivated'' 401))
              else
                let tr = generateTokenResponse e now u
                in (case save u (\<lambda>x. x\<lparr>refreshToken := Some (tr_refreshToken tr)\<rparr>) db of
                      Inl err \<Rightarrow> (db, Inl err)
                    | Inr db' \<Rightarrow> (db', Inr (200, tr)))))"

definition logout :: "user \<Rightarrow> user list \<Rightarrow> user list \<times> (AppError + nat)" where
  "logout req_user db =
     (updateById (uid req_user) (\<lambda>x. x\<lparr>refreshToken := None\<rparr>) db, Inr 200)"

section \<open>Creating an account\<close>

definition newUserId :: "user list \<Rightarrow> nat" where
  "newUserId db = Suc (fold max (map uid db) 0)"

text \<open>
  The body of \<^verbatim>\<open>register\<close> as the route's validator passes it on: name, email and
  password are strings, the other keys may be absent.
\<close>

record registerBody =
  rb_name :: string
  rb_email :: string
  rb_password :: string
  rb_phone :: "string option"
  rb_address :: "address option"
  rb_role :: "string option"

text \<open>
  \<^verbatim>\<open>User.create\<close>: apply the setters and defaults, validate, hash the password in the
  pre-save hook, insert. The messages of a failure are collected; their order in the
  joined message is not part of any property below.
\<close>

definition User_create ::
  "bcrypt \<Rightarrow> registerBody \<Rightarrow> string \<Rightarrow> user list \<Rightarrow> AppError + user list \<times> user" where
  "User_create bc b r db =
     (let doc = \<lparr>uid = newUserId db, name = trim (rb_name b), email = toLowerCase (rb_email b),
                 password = rb_password b, role = r, phone = rb_phone b,
                 address = rb_address b, avatar = None, isActive = True, lastLogin = None,
                 refreshToken = None\<rparr>;
          errors = userErrors doc @ validate_user_password (password doc)
      in if errors \<noteq> [] then Inl (validationError errors)
         else let saved = doc\<lparr>password := bcrypt_hash bc (password doc)\<rparr>
              in Inr (db @ [saved], saved))"

text \<open>
  Lines 20 to 34 of \<^verbatim>\<open>register\<close>: the role of the new account.
\<close>

definition userRole :: "env \<Rightarrow> string option \<Rightarrow> user list \<Rightarrow> string" where
  "userRole e requested db =
     (if requested = Some ''admin'' then
        (if NODE_ENV e = ''development'' then ''admin''
         else (case findOneByRole ''admin'' db of
                 None \<Rightarrow> ''admin''
               | Some adminExists \<Rightarrow> ''user''))
      else ''user'')"

definition register ::
  "env \<Rightarrow> bcrypt \<Rightarrow> nat \<Rightarrow> registerBody \<Rightarrow> user list
     \<Rightarrow> user list \<times> (AppError + nat \<times> user \<times> tokenResponse)" where
  "register e bc now b db =
     (case findOneByEmail (rb_email b) db of
        Some existingUser \<Rightarrow>
          (db, Inl (createError ''User with this email already exists'' 409))
      | None \<Rightarrow>
         (case User_create bc b (userRole e (rb_role b) db) db of
            Inl err \<Rightarrow> (db, Inl err)
          | Inr (db1, u) \<Rightarrow>
              let tr = generateTokenResponse e now u;
                  upd = (\<lambda>x. x\<lparr>refreshToken := Some (tr_refreshToken tr),
                                lastLogin := Some now\<rparr>)
              in (case save u upd db1 of
                    Inl err \<Rightarrow> (db1, Inl err)
                  | Inr db2 \<Rightarrow> (db2, Inr (201, upd u, tr)))))"

section \<open>User management handlers\<close>

record updateBody =
  ub_name :: "string option"
  ub_phone :: "string option"
  ub_address :: "address option"
  ub_avatar :: "string option"
  ub_role :: "string option"
  ub_isActive :: "bool option"

text \<open>
  Lines 120 to 131 of \<^verbatim>\<open>updateUser\<close>: the update document built from the body; \<open>None\<close>
  is a key that is not set.
\<close>

definition updateData :: "user \<Rightarrow> updateBody \<Rightarrow> updateBody" where
  "updateData req_user b =
     \<lparr>ub_name = ub_name b, ub_phone = ub_phone b, ub_address = ub_address b,
      ub_avatar = ub_avatar b,
      ub_role = (if role req_user = ''admin'' then ub_role b else None),
      ub_isActive = (if role req_user = ''admin'' then ub_isActive b else None)\<rparr>"

text \<open>
  \<^verbatim>\<open>User.findByIdAndUpdate(id, updateData, {new: true, runValidators: true})\<close>: the
  validators of the paths that the update sets run on the values after the setters; then
  those paths are written.
\<close>

definition applyUpdate :: "updateBody \<Rightarrow> user \<Rightarrow> user" where
  "applyUpdate d u =
     u\<lparr>name := (case ub_name d of None \<Rightarrow> name u | Some v \<Rightarrow> trim v),
       phone := (case ub_phone d of None \<Rightarrow> phone u | Some v \<Rightarrow> Some v),
       address := (case ub_address d of None \<Rightarrow> address u | Some v \<Rightarrow> Some v),
       avatar := (case ub_avatar d of None \<Rightarrow> avatar u | Some v \<Rightarrow> Some v),
       role := (case ub_role d of None \<Rightarrow> role u | Some v \<Rightarrow> v),
       isActive := (case ub_isActive d of None \<Rightarrow> isActive u | Some v \<Rightarrow> v)\<rparr>"

definition updateErrors :: "updateBody \<Rightarrow> string list" where
  "updateErrors d =
     (case ub_name d of None \<Rightarrow> [] | Some v \<Rightarrow> validate_user_name (trim v)) @
     (case ub_phone d of None \<Rightarrow> [] | Some v \<Rightarrow> validate_user_phone v) @
     (case ub_role d of None \<Rightarrow> [] | Some v \<Rightarrow> validate_user_role v)"

definition findByIdAndUpdate ::
  "nat \<Rightarrow> updateBody \<Rightarrow> user list \<Rightarrow> AppError + user list \<times> user option" where
  "findByIdAndUpdate i d db =
     (if updateErrors d \<noteq> [] then Inl (validationError (updateErrors d))
      else let db' = updateById i (applyUpdate d) db in Inr (db', findById i db'))"

definition updateUser ::
  "user \<Rightarrow> nat \<Rightarrow> updateBody \<Rightarrow> user list \<Rightarrow> user list \<times> (AppError + nat \<times> user)" where
  "updateUser req_user i b db =
     (case findById i db of
        None \<Rightarrow> (db, Inl (createError ''User not found'' 404))
      | Some u \<Rightarrow>
          if uid req_user \<noteq> uid u \<and> role req_user \<noteq> ''admin'' then
            (db, Inl (createError ''Access denied. You can only update your own profile.'' 403))
          else
            (case findByIdAndUpdate i (updateData req_user b) db of
               Inl err \<Rightarrow> (db, Inl err)
             | Inr (db', None) \<Rightarrow>
                 (db', Inl (createError ''Cannot read properties of null'' 500))
             | Inr (db', Some u') \<Rightarrow> (db', Inr (200, u'))))"

definition deleteUser ::
  "user \<Rightarrow> nat \<Rightarrow> user list \<Rightarrow> user list \<times> (AppError + nat)" where
  "deleteUser req_user i db =
     (case findById i db of
        None \<Rightarrow> (db, Inl (createError ''User not found'' 404))
      | Some u \<Rightarrow>
          if uid req_user \<noteq> uid u \<and> role req_user \<noteq> ''admin'' then
            (db, Inl (createError ''Access denied. You can only delete your own account.'' 403))
          else if role req_user = ''admin'' \<and> uid req_user = uid u then
            (db, Inl (createError ''Admin cannot delete their own account'' 400))
          else
            (updateById i (\<lambda>x. x\<lparr>isActive := False, refreshToken := None\<rparr>) db, Inr 200))"

definition toggleUserStatus ::
  "user \<Rightarrow> nat \<Rightarrow> js \<Rightarrow> user list \<Rightarrow> user list \<times> (AppError + nat \<times> user)" where
  "toggleUserStatus req_user i isActive_body db =
     (case isActive_body of
        JBool b \<Rightarrow>
          (case findById i db of
             None \<Rightarrow> (db, Inl (createError ''User not found'' 404))
           | Some u \<Rightarrow>
               if uid req_user = uid u then
                 (db, Inl (createError ''Admin cannot change their own account status'' 400))
               else
                 let upd = (\<lambda>x. if \<not> b then x\<lparr>isActive := b, refreshToken := None\<rparr>
                                 else x\<lparr>isActive := b\<rparr>)
                 in (case save u upd db of
                       Inl err \<Rightarrow> (db, Inl err)
                     | Inr db' \<Rightarrow> (db', Inr (200, upd u))))
      | _ \<Rightarrow> (db, Inl (createError ''isActive field must be a boolean value'' 400)))"

section \<open>Products\<close>

text \<open>
  \<^verbatim>\<open>models/Product.js\<close>. \<open>pid\<close> is \<^verbatim>\<open>_id\<close>. Prices reach the handlers through the
  validators of the routes, which admit finite numbers, and are only compared; they are
  read as their exact values. The stock enters the arithmetic of \<^verbatim>\<open>updateStock\<close>,
  whose route has no body validator, and is a double. The paths \<^verbatim>\<open>specifications\<close>, \<^verbatim>\<open>tags\<close>, \<^verbatim>\<open>weight\<close>,
  \<^verbatim>\<open>dimensions\<close>, \<^verbatim>\<open>rating\<close> and the two SEO strings take no part in the handlers
  below beyond being stored, and are left out.
\<close>

record image =
  url :: string
  alt :: string
  isPrimary :: bool

record product =
  pid :: nat
  p_name :: string
  description :: string
  price :: real
  comparePrice :: "real option"
  category :: string
  brand :: string
  sku :: string
  stock :: double
  images :: "image list"
  p_isActive :: bool
  isFeatured :: bool
  createdBy :: nat
  updatedBy :: "nat option"

definition findProductById :: "nat \<Rightarrow> product list \<Rightarrow> product option" where
  "findProductById i db = find (\<lambda>p. pid p = i) db"

fun updateProductById :: "nat \<Rightarrow> (product \<Rightarrow> product) \<Rightarrow> product list \<Rightarrow> product list" where
  "updateProductById i f [] = []"
| "updateProductById i f (p # ps) =
     (if pid p = i then f p # ps else p # updateProductById i f ps)"

definition newProductId :: "product list \<Rightarrow> nat" where
  "newProductId db = Suc (fold max (map pid db) 0)"

subsection \<open>Validators of the product schema\<close>

definition validate_product_name :: "string \<Rightarrow> string list" where
  "validate_product_name v =
     (if v = [] then [''Please provide a product name''] else []) @
     (if length v > 100 then [''Product name cannot be more than 100 characters''] else [])"

definition validate_description :: "string \<Rightarrow> string list" where
  "validate_description v =
     (if v = [] then [''Please provide a product description''] else []) @
     (if length v > 2000 then [''Description cannot be more than 2000 characters''] else [])"

definition validate_price :: "real \<Rightarrow> string list" where
  "validate_price v = (if v < 0 then [''Price cannot be negative''] else [])"

text \<open>
  The custom validator of \<^verbatim>\<open>comparePrice\<close>,
  \<^verbatim>\<open>function(value) { return !value || value >= this.price; }\<close>. \<open>this_price\<close> is
  \<^verbatim>\<open>this.price\<close>, \<open>None\<close> when it is \<^verbatim>\<open>undefined\<close>: a comparison with
  \<^verbatim>\<open>undefined\<close> is false. Under document validation \<^verbatim>\<open>this\<close> is the document; under
  the update validators of \<^verbatim>\<open>findByIdAndUpdate\<close> it is the query, which has no
  \<^verbatim>\<open>price\<close>.
\<close>

definition comparePriceValidator :: "real option \<Rightarrow> real \<Rightarrow> bool" where
  "comparePriceValidator this_price value =
     (value = 0 \<or> (case this_price of None \<Rightarrow> False | Some p \<Rightarrow> value \<ge> p))"

definition validate_comparePrice :: "real option \<Rightarrow> real \<Rightarrow> string list" where
  "validate_comparePrice this_price v =
     (if v < 0 then [''Compare price cannot be negative''] else []) @
     (if comparePriceValidator this_price v then []
      else [''Compare price should be greater than or equal to the selling price''])"

definition categories :: "string list" where
  "categories = [''electronics'', ''clothing'', ''books'', ''home'', ''sports'', ''beauty'',
     ''toys'', ''automotive'', ''health'', ''food'', ''other'']"

definition validate_category :: "string \<Rightarrow> string list" where
  "validate_category v =
     (if v = [] then [''Please provide a product category'']
      else if v \<notin> set categories then [''Please select a valid category''] else [])"

definition validate_brand :: "string \<Rightarrow> string list" where
  "validate_brand v = (if v = [] then [''Please provide a brand name''] else [])"

definition validate_sku :: "string \<Rightarrow> string list" where
  "validate_sku v = (if v = [] then [''Please provide a SKU''] else [])"

text \<open>
  \<^verbatim>\<open>NaN\<close> does not cast to the schema type \<^verbatim>\<open>Number\<close>; the cast error of the
  assignment is reported by the validation.
\<close>

definition validate_stock :: "double \<Rightarrow> string list" where
  "validate_stock v =
     (if v = NotANumber then [''Cast to Number failed for value NaN at path stock'']
      else if less_zero v then [''Stock cannot be negative''] else [])"

definition validate_images :: "image list \<Rightarrow> string list" where
  "validate_images imgs =
     concat (map (\<lambda>img. if url img = [] then [''Path `url` is required.''] else []) imgs)"

text \<open>Document validation, as \<^verbatim>\<open>save()\<close> and \<^verbatim>\<open>create\<close> run it: \<^verbatim>\<open>this\<close> is the document.\<close>

definition productErrors :: "product \<Rightarrow> string list" where
  "productErrors p =
     validate_product_name (p_name p) @ validate_description (description p) @
     validate_price (price p) @
     (case comparePrice p of None \<Rightarrow> [] | Some c \<Rightarrow> validate_comparePrice (Some (price p)) c) @
     validate_category (category p) @ validate_brand (brand p) @ validate_sku (sku p) @
     validate_stock (stock p) @ validate_images (images p)"

subsection \<open>The pre-save hook\<close>

text \<open>
  \<^verbatim>\<open>Array.prototype.findIndex\<close>: the index of the first element that satisfies the
  predicate, or \<open>-1\<close>.
\<close>

fun findIndex :: "('a \<Rightarrow> bool) \<Rightarrow> 'a list \<Rightarrow> int" where
  "findIndex P [] = - 1"
| "findIndex P (x # xs) =
     (if P x then 0 else (let k = findIndex P xs in if k < 0 then - 1 else k + 1))"

text \<open>
  The \<^verbatim>\<open>forEach\<close> of the hook, from position \<open>index\<close> on: each step computes
  \<^verbatim>\<open>findIndex\<close> on the list as the earlier steps left it, and assigns the flag of the
  current image.
\<close>

function forEach_isPrimary :: "nat \<Rightarrow> image list \<Rightarrow> image list" where
  "forEach_isPrimary index imgs =
     (if index < length imgs then
        forEach_isPrimary (Suc index)
          (imgs[index := (imgs ! index)\<lparr>isPrimary := (int index = findIndex isPrimary imgs)\<rparr>])
      else imgs)"
  by pat_completeness auto
termination
  by (relation "measure (\<lambda>(index, imgs). length imgs - index)") auto

declare forEach_isPrimary.simps [simp del]

definition preSave_images :: "image list \<Rightarrow> image list" where
  "preSave_images imgs =
     (if length imgs > 0 then
        (let primaryImages = filter isPrimary imgs in
         if length primaryImages = 0 then imgs[0 := (imgs ! 0)\<lparr>isPrimary := True\<rparr>]
         else if length primaryImages > 1 then forEach_isPrimary 0 imgs
         else imgs)
      else imgs)"

definition preSave :: "product \<Rightarrow> product" where
  "preSave p = p\<lparr>images := preSave_images (images p)\<rparr>"

text \<open>The virtual \<^verbatim>\<open>primaryImage\<close>: the URL of the first primary image, else of the first image.\<close>

definition primaryImage :: "product \<Rightarrow> string option" where
  "primaryImage p =
     (case find isPrimary (images p) of
        Some primaryImg \<Rightarrow> Some (url primaryImg)
      | None \<Rightarrow> (if length (images p) > 0 then Some (url (images p ! 0)) else None))"

text \<open>
  \<^verbatim>\<open>product.save()\<close> of a loaded document \<open>p\<close> after the assignments \<open>f\<close>: validation,
  then the pre-save hook, then the write.
\<close>

definition save_product ::
  "product \<Rightarrow> (product \<Rightarrow> product) \<Rightarrow> product list \<Rightarrow> AppError + product list \<times> product" where
  "save_product p f db =
     (if productErrors (f p) \<noteq> [] then Inl (validationError (productErrors (f p)))
      else Inr (updateProductById (pid p) (\<lambda>x. preSave (f x)) db, preSave (f p)))"

subsection \<open>Creating and updating products\<close>

text \<open>A request body for create and update; \<open>None\<close> is an absent key.\<close>

record productBody =
  pb_name :: "string option"
  pb_description :: "string option"
  pb_price :: "real option"
  pb_comparePrice :: "real option"
  pb_category :: "string option"
  pb_brand :: "string option"
  pb_sku :: "string option"
  pb_stock :: "double option"
  pb_images :: "image list option"
  pb_isActive :: "bool option"
  pb_isFeatured :: "bool option"

definition requiredErrors :: "productBody \<Rightarrow> string list" where
  "requiredErrors b =
     (if pb_name b = None then [''Please provide a product name''] else []) @
     (if pb_description b = None then [''Please provide a product description''] else []) @
     (if pb_price b = None then [''Please provide a product price''] else []) @
     (if pb_category b = None then [''Please provide a product category''] else []) @
     (if pb_brand b = None then [''Please provide a brand name''] else []) @
     (if pb_sku b = None then [''Please provide a SKU''] else [])"

text \<open>
  \<^verbatim>\<open>Product.create(productData)\<close>: setters and defaults, document validation, the
  pre-save hook, insert.
\<close>

definition Product_create ::
  "nat \<Rightarrow> productBody \<Rightarrow> product list \<Rightarrow> AppError + product list \<times> product" where
  "Product_create creator b db =
     (case (pb_name b, pb_description b, pb_price b, pb_category b, pb_brand b, pb_sku b) of
        (Some n, Some d, Some pr, Some c, Some br, Some s) \<Rightarrow>
          (let doc = \<lparr>pid = newProductId db, p_name = trim n, description = d, price = pr,
                      comparePrice = pb_comparePrice b, category = c, brand = trim br,
                      sku = toUpperCase (trim s),
                      stock = (case pb_stock b of None \<Rightarrow> Dyadic 0 0 | Some v \<Rightarrow> v),
                      images = (case pb_images b of None \<Rightarrow> [] | Some v \<Rightarrow> v),
                      p_isActive = (case pb_isActive b of None \<Rightarrow> True | Some v \<Rightarrow> v),
                      isFeatured = (case pb_isFeatured b of None \<Rightarrow> False | Some v \<Rightarrow> v),
                      createdBy = creator, updatedBy = None\<rparr>
           in if productErrors doc \<noteq> [] then Inl (validationError (productErrors doc))
              else Inr (db @ [preSave doc], preSave doc))
      | _ \<Rightarrow> Inl (validationError (requiredErrors b)))"

text \<open>
  \<^verbatim>\<open>createProduct\<close>. Without an \<^verbatim>\<open>sku\<close> the call of \<^verbatim>\<open>toUpperCase\<close> throws a
  \<^verbatim>\<open>TypeError\<close>, which the error middleware answers with status 500.
\<close>

definition createProduct ::
  "user \<Rightarrow> productBody \<Rightarrow> product list \<Rightarrow> product list \<times> (AppError + nat \<times> product)" where
  "createProduct req_user b db =
     (case pb_sku b of
        None \<Rightarrow> (db, Inl (createError ''Cannot read properties of undefined'' 500))
      | Some s \<Rightarrow>
         (case find (\<lambda>p. sku p = toUpperCase (trim (toUpperCase s))) db of
            Some existingProduct \<Rightarrow>
              (db, Inl (createError ''Product with this SKU already exists'' 409))
          | None \<Rightarrow>
             (case Product_create (uid req_user) b db of
                Inl err \<Rightarrow> (db, Inl err)
              | Inr (db', p) \<Rightarrow> (db', Inr (201, p)))))"

text \<open>
  The update validators of \<^verbatim>\<open>findByIdAndUpdate(..., {runValidators: true})\<close>: only the
  paths that the update sets are validated, and \<^verbatim>\<open>this\<close> is the query.
\<close>

definition productUpdateErrors :: "productBody \<Rightarrow> string list" where
  "productUpdateErrors b =
     (case pb_name b of None \<Rightarrow> [] | Some v \<Rightarrow> validate_product_name (trim v)) @
     (case pb_description b of None \<Rightarrow> [] | Some v \<Rightarrow> validate_description v) @
     (case pb_price b of None \<Rightarrow> [] | Some v \<Rightarrow> validate_price v) @
     (case pb_comparePrice b of None \<Rightarrow> [] | Some v \<Rightarrow> validate_comparePrice None v) @
     (case pb_category b of None \<Rightarrow> [] | Some v \<Rightarrow> validate_category v) @
     (case pb_brand b of None \<Rightarrow> [] | Some v \<Rightarrow> validate_brand (trim v)) @
     (case pb_sku b of None \<Rightarrow> [] | Some v \<Rightarrow> validate_sku (toUpperCase (trim v))) @
     (case pb_stock b of None \<Rightarrow> [] | Some v \<Rightarrow> validate_stock v) @
     (case pb_images b of None \<Rightarrow> [] | Some v \<Rightarrow> validate_images v)"

definition applyProductUpdate :: "productBody \<Rightarrow> nat \<Rightarrow> product \<Rightarrow> product" where
  "applyProductUpdate b updater p =
     p\<lparr>p_name := (case pb_name b of None \<Rightarrow> p_name p | Some v \<Rightarrow> trim v),
       description := (case pb_description b of None \<Rightarrow> description p | Some v \<Rightarrow> v),
       price := (case pb_price b of None \<Rightarrow> price p | Some v \<Rightarrow> v),
       comparePrice := (case pb_comparePrice b of None \<Rightarrow> comparePrice p | Some v \<Rightarrow> Some v),
       category := (case pb_category b of None \<Rightarrow> category p | Some v \<Rightarrow> v),
       brand := (case pb_brand b of None \<Rightarrow> brand p | Some v \<Rightarrow> trim v),
       sku := (case pb_sku b of None \<Rightarrow> sku p | Some v \<Rightarrow> toUpperCase (trim v)),
       stock := (case pb_stock b of None \<Rightarrow> stock p | Some v \<Rightarrow> v),
       images := (case pb_images b of None \<Rightarrow> images p | Some v \<Rightarrow> v),
       p_isActive := (case pb_isActive b of None \<Rightarrow> p_isActive p | Some v \<Rightarrow> v),
       isFeatured := (case pb_isFeatured b of None \<Rightarrow> isFeatured p | Some v \<Rightarrow> v),
       updatedBy := Some updater\<rparr>"

text \<open>
  \<^verbatim>\<open>updateProduct\<close>. The write goes through \<^verbatim>\<open>findByIdAndUpdate\<close>, which runs the
  update validators and no \<^verbatim>\<open>save\<close> middleware.
\<close>

definition updateProduct ::
  "user \<Rightarrow> nat \<Rightarrow> productBody \<Rightarrow> product list
     \<Rightarrow> product list \<times> (AppError + nat \<times> product)" where
  "updateProduct req_user i b db =
     (case findProductById i db of
        None \<Rightarrow> (db, Inl (createError ''Product not found'' 404))
      | Some product \<Rightarrow>
          if (case pb_sku b of
                None \<Rightarrow> False
              | Some s \<Rightarrow> s \<noteq> [] \<and> toUpperCase s \<noteq> sku product \<and>
                  find (\<lambda>p. sku p = toUpperCase (trim (toUpperCase s)) \<and> pid p \<noteq> i) db \<noteq> None)
          then (db, Inl (createError ''Product with this SKU already exists'' 409))
          else if productUpdateErrors b \<noteq> [] then
            (db, Inl (validationError (productUpdateErrors b)))
          else
            (updateProductById i (applyProductUpdate b (uid req_user)) db,
             Inr (200, applyProductUpdate b (uid req_user) product)))"

text \<open>\<^verbatim>\<open>toggleProductStatus\<close>: the flag is assigned on the loaded document, which is saved.\<close>

definition toggleProductStatus ::
  "user \<Rightarrow> nat \<Rightarrow> js \<Rightarrow> product list \<Rightarrow> product list \<times> (AppError + nat \<times> product)" where
  "toggleProductStatus req_user i isActive_body db =
     (case isActive_body of
        JBool b \<Rightarrow>
          (case findProductById i db of
             None \<Rightarrow> (db, Inl (createError ''Product not found'' 404))
           | Some product \<Rightarrow>
              (case save_product product
                      (\<lambda>x. x\<lparr>p_isActive := b, updatedBy := Some (uid req_user)\<rparr>) db of
                 Inl err \<Rightarrow> (db, Inl err)
               | Inr (db', p') \<Rightarrow> (db', Inr (200, p'))))
      | _ \<Rightarrow> (db, Inl (createError ''isActive field must be a boolean value'' 400)))"

subsection \<open>Stock updates\<close>

text \<open>
  \<^verbatim>\<open>updateStock\<close>. \<^verbatim>\<open>stock\<close> and \<^verbatim>\<open>operation\<close> are the values of the body as parsed;
  an absent \<^verbatim>\<open>operation\<close> defaults to \<^verbatim>\<open>'set'\<close>. \<open>newStock\<close> is the \<^verbatim>\<open>switch\<close>; without
  a matching case the variable stays \<^verbatim>\<open>undefined\<close> (\<open>None\<close>), which the \<^verbatim>\<open>required\<close>
  rule of \<^verbatim>\<open>stock\<close> refuses at the save.
\<close>

definition newStock :: "string \<Rightarrow> double \<Rightarrow> double \<Rightarrow> double option" where
  "newStock operation product_stock stock_body =
     (if operation = ''set'' then Some stock_body
      else if operation = ''add'' then Some (js_add product_stock stock_body)
      else if operation = ''subtract'' then Some (Math_max_0 (js_sub product_stock stock_body))
      else None)"

definition updateStock ::
  "user \<Rightarrow> nat \<Rightarrow> js \<Rightarrow> js \<Rightarrow> product list \<Rightarrow> product list \<times> (AppError + nat \<times> product)" where
  "updateStock req_user i stock_body operation_body db =
     (let operation = (case operation_body of JUndefined \<Rightarrow> JStr ''set'' | v \<Rightarrow> v) in
      case stock_body of
        JNum amount \<Rightarrow>
          if less_zero amount then
            (db, Inl (createError ''Stock must be a positive number'' 400))
          else
           (case operation of
              JStr op \<Rightarrow>
                if op \<notin> set [''set'', ''add'', ''subtract''] then
                  (db, Inl (createError ''Operation must be one of: set, add, subtract'' 400))
                else
                 (case findProductById i db of
                    None \<Rightarrow> (db, Inl (createError ''Product not found'' 404))
                  | Some product \<Rightarrow>
                     (case newStock op (stock product) amount of
                        None \<Rightarrow> (db, Inl (validationError [''Please provide stock quantity'']))
                      | Some n \<Rightarrow>
                         (case save_product product
                                 (\<lambda>x. x\<lparr>stock := n, updatedBy := Some (uid req_user)\<rparr>) db of
                            Inl err \<Rightarrow> (db, Inl err)
                          | Inr (db', p') \<Rightarrow> (db', Inr (200, p')))))
            | _ \<Rightarrow> (db, Inl (createError ''Operation must be one of: set, add, subtract'' 400)))
      | _ \<Rightarrow> (db, Inl (createError ''Stock must be a positive number'' 400)))"

section \<open>Pagination of listings\<close>

text \<open>
  The values \<^verbatim>\<open>Math.ceil(total / limit)\<close> can take for integers: a division by zero
  gives an infinity, or \<^verbatim>\<open>NaN\<close> for \<^verbatim>\<open>0 / 0\<close>. A comparison with \<^verbatim>\<open>NaN\<close> is false.
\<close>

datatype jsnum = Fin int | PosInfinity | NegInfinity | NaN

definition ceil_div :: "int \<Rightarrow> int \<Rightarrow> jsnum" where
  "ceil_div count limit =
     (if limit = 0 then (if count = 0 then NaN else if count > 0 then PosInfinity else NegInfinity)
      else Fin \<lceil>real_of_int count / real_of_int limit\<rceil>)"

fun js_less :: "int \<Rightarrow> jsnum \<Rightarrow> bool" where
  "js_less page (Fin n) = (page < n)"
| "js_less page PosInfinity = True"
| "js_less page NegInfinity = False"
| "js_less page NaN = False"

record pagination =
  currentPage :: int
  totalPages :: jsnum
  totalCount :: int
  hasNextPage :: bool
  hasPrevPage :: bool

text \<open>
  Lines 53 to 79 of \<^verbatim>\<open>getAllProducts\<close> and 37 to 59 of \<^verbatim>\<open>getAllUsers\<close>: the
  pagination object for the count that \<^verbatim>\<open>countDocuments\<close> returned. \<open>None\<close> is an absent
  query parameter; the defaults are page 1 and limit 12 for products, 10 for users. A
  parameter that is present is the integer it converts to; the product route's
  validator admits a limit from 1 to 100 only, the user route admits any.
\<close>

definition paginate :: "int \<Rightarrow> int \<Rightarrow> int \<Rightarrow> pagination" where
  "paginate page limit count =
     (let pages = ceil_div count limit in
      \<lparr>currentPage = page, totalPages = pages, totalCount = count,
       hasNextPage = js_less page pages, hasPrevPage = (page > 1)\<rparr>)"

definition getAllProducts_pagination :: "int option \<Rightarrow> int option \<Rightarrow> int \<Rightarrow> pagination" where
  "getAllProducts_pagination page limit totalProducts =
     paginate (case page of None \<Rightarrow> 1 | Some v \<Rightarrow> v) (case limit of None \<Rightarrow> 12 | Some v \<Rightarrow> v)
       totalProducts"

definition getAllUsers_pagination :: "int option \<Rightarrow> int option \<Rightarrow> int \<Rightarrow> pagination" where
  "getAllUsers_pagination page limit totalUsers =
     paginate (case page of None \<Rightarrow> 1 | Some v \<Rightarrow> v) (case limit of None \<Rightarrow> 10 | Some v \<Rightarrow> v)
       totalUsers"

text \<open>
  The quotient rounded up, in the words of arithmetic: \<open>n\<close> pages of \<open>limit\<close> records hold
  \<open>count\<close> records and \<open>n - 1\<close> pages do not.
\<close>

definition is_ceil_quotient :: "int \<Rightarrow> int \<Rightarrow> int \<Rightarrow> bool" where
  "is_ceil_quotient n count limit = ((n - 1) * limit < count \<and> count \<le> n * limit)"

section \<open>Sample data\<close>

text \<open>Concrete configurations and accounts on which the properties below are run.\<close>

definition sampleEnv :: env where
  "sampleEnv = \<lparr>NODE_ENV = ''production'', JWT_SECRET = ''access-secret'', JWT_EXPIRE = 900,
      JWT_REFRESH_SECRET = ''refresh-secret'', JWT_REFRESH_EXPIRE = 2592000\<rparr>"

definition devEnv :: env where
  "devEnv = sampleEnv\<lparr>NODE_ENV := ''development''\<rparr>"

definition sampleBcrypt :: bcrypt where
  "sampleBcrypt = \<lparr>bcrypt_hash = (\<lambda>p. ''$2a$12$'' @ p),
      bcrypt_compare = (\<lambda>p h. h = ''$2a$12$'' @ p)\<rparr>"

definition alice :: user where
  "alice = \<lparr>uid = 1, name = ''Alice'', email = ''a@x.com'', password = ''$2a$12$Secret1'',
      role = ''user'', phone = None, address = None, avatar = None, isActive = True,
      lastLogin = None, refreshToken = None\<rparr>"

definition root :: user where
  "root = \<lparr>uid = 2, name = ''Root'', email = ''root@x.com'', password = ''$2a$12$Secret2'',
      role = ''admin'', phone = None, address = None, avatar = None, isActive = True,
      lastLogin = None, refreshToken = None\<rparr>"

text \<open>Alice after a login at second 100 and a last token issue at second \<open>n\<close>.\<close>

definition aliceWithToken :: "nat \<Rightarrow> user" where
  "aliceWithToken n =
     alice\<lparr>lastLogin := Some 100, refreshToken := Some (generateRefreshToken sampleEnv n 1)\<rparr>"

definition adminRequest :: registerBody where
  "adminRequest = \<lparr>rb_name = ''Mallory'', rb_email = ''m@x.com'', rb_password = ''Secret1'',
      rb_phone = None, rb_address = None, rb_role = Some ''admin''\<rparr>"

text \<open>The account that \<open>adminRequest\<close> creates at second 100 under id \<open>i\<close>.\<close>

definition mallory :: "env \<Rightarrow> nat \<Rightarrow> user" where
  "mallory e i = \<lparr>uid = i, name = ''Mallory'', email = ''m@x.com'',
      password = ''$2a$12$Secret1'', role = ''admin'', phone = None, address = None,
      avatar = None, isActive = True, lastLogin = Some 100,
      refreshToken = Some (generateRefreshToken e 100 i)\<rparr>"

definition escalatingBody :: updateBody where
  "escalatingBody = \<lparr>ub_name = Some ''Alicia'', ub_phone = None, ub_address = None,
      ub_avatar = None, ub_role = Some ''admin'', ub_isActive = Some False\<rparr>"

text \<open>Images, request bodies and stored products.\<close>

definition gallery1 :: "image list" where
  "gallery1 = [\<lparr>url = ''https://img.x.com/front.png'', alt = '''', isPrimary = True\<rparr>]"

definition gallery2 :: "image list" where
  "gallery2 = [\<lparr>url = ''https://img.x.com/front.png'', alt = '''', isPrimary = True\<rparr>,
               \<lparr>url = ''https://img.x.com/back.png'', alt = '''', isPrimary = True\<rparr>]"

definition gallery2_saved :: "image list" where
  "gallery2_saved = [\<lparr>url = ''https://img.x.com/front.png'', alt = '''', isPrimary = True\<rparr>,
               \<lparr>url = ''https://img.x.com/back.png'', alt = '''', isPrimary = False\<rparr>]"

definition emptyBody :: productBody where
  "emptyBody = \<lparr>pb_name = None, pb_description = None, pb_price = None,
      pb_comparePrice = None, pb_category = None, pb_brand = None, pb_sku = None,
      pb_stock = None, pb_images = None, pb_isActive = None, pb_isFeatured = None\<rparr>"

definition widgetBody :: productBody where
  "widgetBody = \<lparr>pb_name = Some ''Widget'', pb_description = Some ''A useful widget'',
      pb_price = Some 10, pb_comparePrice = Some 0, pb_category = Some ''other'',
      pb_brand = Some ''Acme'', pb_sku = Some ''wid-1'', pb_stock = Some (Dyadic 3 0),
      pb_images = Some gallery1, pb_isActive = None, pb_isFeatured = None\<rparr>"

definition widget :: product where
  "widget = \<lparr>pid = 1, p_name = ''Widget'', description = ''A useful widget'', price = 10,
      comparePrice = Some 0, category = ''other'', brand = ''Acme'', sku = ''WID-1'',
      stock = Dyadic 3 0, images = gallery1, p_isActive = True, isFeatured = False, createdBy = 2,
      updatedBy = None\<rparr>"

definition gadget :: product where
  "gadget = \<lparr>pid = 1, p_name = ''Gadget'', description = ''A handy gadget'', price = 40,
      comparePrice = Some 50, category = ''other'', brand = ''Acme'', sku = ''GAD-1'',
      stock = Dyadic 3 0, images = gallery1, p_isActive = True, isFeatured = False, createdBy = 2,
      updatedBy = None\<rparr>"

section \<open>Properties\<close>

subsection \<open>Collection lemmas\<close>

lemma findById_updateById:
  "(\<And>x. uid (f x) = uid x) \<Longrightarrow> findById i (updateById i f db) = map_option f (findById i db)"
  by (induction db) (auto simp: findById_def)

lemma findById_updateById_other:
  "j \<noteq> i \<Longrightarrow> (\<And>x. uid (f x) = uid x) \<Longrightarrow> findById j (updateById i f db) = findById j db"
  by (induction db) (auto simp: findById_def)

lemma findById_uid: "findById i db = Some u \<Longrightarrow> uid u = i"
  by (auto simp: findById_def find_Some_iff)

lemma save_Inr: "save u f db = Inr db' \<Longrightarrow> db' = updateById (uid u) f db"
  by (simp add: save_def split: if_splits)

lemma uid_less_newUserId: "u \<in> set db \<Longrightarrow> uid u < newUserId db"
proof -
  assume "u \<in> set db"
  then have "uid u \<in> set (0 # map uid db)" by simp
  then have "uid u \<le> Max (set (0 # map uid db))" by (intro Max_ge) simp_all
  then show ?thesis unfolding newUserId_def Max.set_eq_fold by simp
qed

lemma updateById_fresh:
  "\<forall>u \<in> set db. uid u \<noteq> i \<Longrightarrow>
     updateById i f (db @ [x]) = db @ (if uid x = i then [f x] else [x])"
  by (induction db) auto

lemma User_create_result:
  assumes "User_create bc b r db = Inr (db1, u)"
  shows "db1 = db @ [u] \<and> uid u = newUserId db \<and> role u = r"
  using assms by (auto simp: User_create_def Let_def split: if_splits)

lemma sample_strings:
  "regex_test emailPattern ''m@x.com''"
  "regex_test emailPattern ''a@x.com''"
  "regex_test emailPattern ''root@x.com''"
  "toLowerCase ''m@x.com'' = ''m@x.com''"
  "toLowerCase ''a@x.com'' = ''a@x.com''"
  "toLowerCase ''nobody@x.com'' = ''nobody@x.com''"
  "trim ''Mallory'' = ''Mallory''"
  "trim ''Alicia'' = ''Alicia''"
  by code_simp+

lemmas sample_defs =
  sampleEnv_def devEnv_def sampleBcrypt_def alice_def root_def aliceWithToken_def
  adminRequest_def mallory_def escalatingBody_def

lemmas validator_defs =
  save_def userErrors_def validate_user_name_def validate_user_email_def
  validate_user_role_def validate_user_phone_def validate_user_password_def

lemmas token_defs =
  generateTokenResponse_def generateRefreshToken_def generateAccessToken_def
  jwt_verify_refresh_def findByRefreshToken_def

subsection \<open>Refresh-token rotation\<close>

text \<open>A successful refresh stores the token it issues, whatever the clock.\<close>

lemma refresh_overwrites:
  assumes "refreshToken_handler e now (Some t) db = (db', Inr (st, tr))"
  shows "map_option refreshToken (findById (rt_id t) db') = Some (Some (tr_refreshToken tr))"
proof -
  from assms obtain u where f: "findByRefreshToken e now t db = Some u"
    by (auto simp: refreshToken_handler_def split: option.splits)
  then have fid: "findById (rt_id t) db = Some u"
    by (auto simp: findByRefreshToken_def jwt_verify_refresh_def split: option.splits if_splits)
  then have uid: "uid u = rt_id t" by (rule findById_uid)
  from assms f
  have "db' = updateById (uid u) (\<lambda>x. x\<lparr>refreshToken := Some (tr_refreshToken tr)\<rparr>) db"
    by (auto simp: refreshToken_handler_def Let_def dest: save_Inr split: if_splits sum.splits)
  then show ?thesis
    unfolding uid using fid by (simp add: findById_updateById)
qed

text \<open>
  C1, as stated, fails: a token is a function of the account id, the clock second and
  the configuration. Alice logs in at second 100 and refreshes within the same second;
  the token issued by the refresh is the token of the login, so the first token still
  matches the stored one and a later refresh with it succeeds.
\<close>

theorem refresh_same_second_counterexample:
  "login sampleEnv sampleBcrypt 100 ''a@x.com'' ''Secret1'' [alice]
     = ([aliceWithToken 100],
        Inr (200, aliceWithToken 100, generateTokenResponse sampleEnv 100 alice))
   \<and> tr_refreshToken (generateTokenResponse sampleEnv 100 alice)
       = generateRefreshToken sampleEnv 100 1
   \<and> refreshToken_handler sampleEnv 100 (Some (generateRefreshToken sampleEnv 100 1))
        [aliceWithToken 100]
     = ([aliceWithToken 100], Inr (200, generateTokenResponse sampleEnv 100 alice))
   \<and> refreshToken_handler sampleEnv 101 (Some (generateRefreshToken sampleEnv 100 1))
        [aliceWithToken 100]
     = ([aliceWithToken 101], Inr (200, generateTokenResponse sampleEnv 101 alice))"
  by (simp add: login_def refreshToken_handler_def findOneByEmail_def findById_def
        matchPassword_def sample_strings sample_defs token_defs validator_defs Let_def)

text \<open>
  C1, amended: a successful refresh overwrites the stored refresh token of the account
  with the newly issued one; when the token supplied was issued in another clock second
  than the refresh, the new token differs from it, and every later refresh call that
  supplies the overwritten token fails with 401 and leaves the collection as it is.
\<close>

theorem refresh_rotation:
  assumes ok: "refreshToken_handler e now (Some t) db = (db', Inr (st, tr))"
    and fresh: "rt_iat t \<noteq> now"
  shows "map_option refreshToken (findById (rt_id t) db') = Some (Some (tr_refreshToken tr))
       \<and> tr_refreshToken tr \<noteq> t
       \<and> refreshToken_handler e now' (Some t) db'
           = (db', Inl (AppError ''Invalid refresh token'' 401))"
proof -
  from ok obtain u where f: "findByRefreshToken e now t db = Some u"
    by (auto simp: refreshToken_handler_def split: option.splits)
  from f have fid: "findById (rt_id t) db = Some u"
    by (auto simp: findByRefreshToken_def jwt_verify_refresh_def split: option.splits if_splits)
  have uid: "uid u = rt_id t" using fid by (rule findById_uid)
  from ok f have tr: "tr = generateTokenResponse e now u"
    and db': "db' = updateById (uid u) (\<lambda>x. x\<lparr>refreshToken := Some (tr_refreshToken tr)\<rparr>) db"
    by (auto simp: refreshToken_handler_def Let_def dest: save_Inr split: if_splits sum.splits)
  have new: "tr_refreshToken tr \<noteq> t"
    using fresh by (auto simp: tr generateTokenResponse_def generateRefreshToken_def)
  have stored: "findById (rt_id t) db' = Some (u\<lparr>refreshToken := Some (tr_refreshToken tr)\<rparr>)"
    unfolding db' uid using fid by (subst findById_updateById) simp_all
  have "refreshToken_handler e now' (Some t) db'
           = (db', Inl (AppError ''Invalid refresh token'' 401))"
    using stored new
    by (auto simp: refreshToken_handler_def findByRefreshToken_def jwt_verify_refresh_def
          createError_def split: option.splits)
  with stored new show ?thesis by simp
qed

text \<open>
  The amended C1 at work: Alice holds the token of second 100 and refreshes at second
  101; the token of second 100 is refused at second 102.
\<close>

theorem refresh_rotation_witness:
  "refreshToken_handler sampleEnv 101 (Some (generateRefreshToken sampleEnv 100 1))
       [aliceWithToken 100]
     = ([aliceWithToken 101], Inr (200, generateTokenResponse sampleEnv 101 alice))
   \<and> rt_iat (generateRefreshToken sampleEnv 100 1) \<noteq> 101
   \<and> refreshToken_handler sampleEnv 102 (Some (generateRefreshToken sampleEnv 100 1))
       [aliceWithToken 101]
     = ([aliceWithToken 101], Inl (AppError ''Invalid refresh token'' 401))"
proof -
  have ok: "refreshToken_handler sampleEnv 101 (Some (generateRefreshToken sampleEnv 100 1))
       [aliceWithToken 100]
     = ([aliceWithToken 101], Inr (200, generateTokenResponse sampleEnv 101 alice))"
    by (simp add: refreshToken_handler_def findById_def sample_defs sample_strings token_defs
          validator_defs Let_def)
  have fresh: "rt_iat (generateRefreshToken sampleEnv 100 1) \<noteq> 101"
    by (simp add: generateRefreshToken_def)
  from refresh_rotation [OF ok fresh, of 102] ok fresh show ?thesis by simp
qed

subsection \<open>Role of a new account\<close>

text \<open>
  C2, as stated, fails in both directions. In development an administrator is created
  although one exists already; in production an administrator is created when none
  exists.
\<close>

theorem register_admin_counterexample:
  "register devEnv sampleBcrypt 100 adminRequest [root]
     = ([root, mallory devEnv 3],
        Inr (201, mallory devEnv 3, generateTokenResponse devEnv 100 (mallory devEnv 3)))
   \<and> role (mallory devEnv 3) = ''admin'' \<and> findOneByRole ''admin'' [root] = Some root
   \<and> register sampleEnv sampleBcrypt 100 adminRequest [alice]
     = ([alice, mallory sampleEnv 2],
        Inr (201, mallory sampleEnv 2,
             generateTokenResponse sampleEnv 100 (mallory sampleEnv 2)))
   \<and> role (mallory sampleEnv 2) = ''admin'' \<and> NODE_ENV sampleEnv = ''production''"
  by (simp add: register_def findOneByEmail_def findOneByRole_def userRole_def
        User_create_def sample_defs sample_strings newUserId_def validator_defs
        generateTokenResponse_def generateRefreshToken_def generateAccessToken_def Let_def)

text \<open>
  C2, amended: the account that a registration creates has the administrator role
  exactly when the request asks for it and either \<^verbatim>\<open>NODE_ENV\<close> is \<^verbatim>\<open>development\<close> or
  no administrator account exists yet; in every other case its role is the standard
  one. The account is appended to the collection.
\<close>

theorem register_role:
  assumes "register e bc now b db = (db', Inr (st, u, tr))"
  shows "role u = (if rb_role b = Some ''admin''
                      \<and> (NODE_ENV e = ''development'' \<or> findOneByRole ''admin'' db = None)
                   then ''admin'' else ''user'')
       \<and> db' = db @ [u]"
proof -
  from assms obtain db1 u0 where
    c: "User_create bc b (userRole e (rb_role b) db) db = Inr (db1, u0)"
    and u: "u = u0\<lparr>refreshToken := Some (tr_refreshToken (generateTokenResponse e now u0)),
                   lastLogin := Some now\<rparr>"
    and d: "db' = updateById (uid u0)
              (\<lambda>x. x\<lparr>refreshToken := Some (tr_refreshToken (generateTokenResponse e now u0)),
                     lastLogin := Some now\<rparr>) db1"
    by (auto simp: register_def save_def Let_def split: option.splits sum.splits if_splits)
  from User_create_result [OF c]
  have db1: "db1 = db @ [u0]" and i: "uid u0 = newUserId db"
    and r: "role u0 = userRole e (rb_role b) db" by simp_all
  have fresh: "\<forall>x \<in> set db. uid x \<noteq> uid u0"
    using uid_less_newUserId i by fastforce
  have "db' = db @ [u]"
    unfolding d db1 u using updateById_fresh [OF fresh] by simp
  moreover have "role u = userRole e (rb_role b) db" using r u by simp
  ultimately show ?thesis
    by (auto simp: userRole_def split: option.splits)
qed

text \<open>
  The amended C2 at work: in production, with the administrator \<open>root\<close> present, a
  request for the administrator role creates a standard account.
\<close>

theorem register_role_witness:
  "register sampleEnv sampleBcrypt 100 adminRequest [root]
     = ([root, (mallory sampleEnv 3)\<lparr>role := ''user''\<rparr>],
        Inr (201, (mallory sampleEnv 3)\<lparr>role := ''user''\<rparr>,
             generateTokenResponse sampleEnv 100 ((mallory sampleEnv 3)\<lparr>role := ''user''\<rparr>)))
   \<and> role ((mallory sampleEnv 3)\<lparr>role := ''user''\<rparr>) = ''user''"
proof -
  have ok: "register sampleEnv sampleBcrypt 100 adminRequest [root]
     = ([root, (mallory sampleEnv 3)\<lparr>role := ''user''\<rparr>],
        Inr (201, (mallory sampleEnv 3)\<lparr>role := ''user''\<rparr>,
             generateTokenResponse sampleEnv 100 ((mallory sampleEnv 3)\<lparr>role := ''user''\<rparr>)))"
    by (simp add: register_def findOneByEmail_def findOneByRole_def userRole_def
        User_create_def sample_defs sample_strings newUserId_def validator_defs
        generateTokenResponse_def generateRefreshToken_def generateAccessToken_def Let_def)
  from register_role [OF ok] ok show ?thesis
    by (simp add: findOneByRole_def sample_defs)
qed

subsection \<open>Login failures\<close>

text \<open>
  C3: a login with an email that matches no account and a login with the email of an
  active account and a wrong password fail alike: status 401, the same message, and the
  collection as it was.
\<close>

theorem login_enumeration_resistance:
  assumes "findOneByEmail em1 db = None"
    and "findOneByEmail em2 db = Some u" and "isActive u" and "\<not> matchPassword bc u pw2"
  shows "login e bc now em1 pw1 db = (db, Inl (AppError ''Invalid email or password'' 401))
       \<and> login e bc now em2 pw2 db = (db, Inl (AppError ''Invalid email or password'' 401))"
  using assms by (simp add: login_def createError_def)

text \<open>C3 on the sample collection: an unknown email, and Alice's email with a wrong password.\<close>

theorem login_enumeration_resistance_witness:
  "findOneByEmail ''nobody@x.com'' [alice] = None
   \<and> findOneByEmail ''a@x.com'' [alice] = Some alice \<and> isActive alice
   \<and> \<not> matchPassword sampleBcrypt alice ''Wrong1''
   \<and> login sampleEnv sampleBcrypt 100 ''nobody@x.com'' ''Secret1'' [alice]
     = ([alice], Inl (AppError ''Invalid email or password'' 401))
   \<and> login sampleEnv sampleBcrypt 100 ''a@x.com'' ''Wrong1'' [alice]
     = ([alice], Inl (AppError ''Invalid email or password'' 401))"
proof -
  have 1: "findOneByEmail ''nobody@x.com'' [alice] = None"
    by (simp add: findOneByEmail_def sample_strings alice_def)
  have 2: "findOneByEmail ''a@x.com'' [alice] = Some alice"
    by (simp add: findOneByEmail_def sample_strings alice_def)
  have 3: "isActive alice" by (simp add: alice_def)
  have 4: "\<not> matchPassword sampleBcrypt alice ''Wrong1''"
    by (simp add: matchPassword_def sampleBcrypt_def alice_def)
  from login_enumeration_resistance [OF 1 2 3 4] 1 2 3 4 show ?thesis by simp
qed

subsection \<open>Deactivation\<close>

text \<open>
  C8: after the status toggle with \<^verbatim>\<open>isActive: false\<close>, and after the soft delete, the
  account is inactive and its stored refresh token is cleared, and every refresh call
  with a token that names this account, whatever the configuration and the clock, fails
  with 401 and changes nothing.
\<close>

theorem deactivation_clears_refresh_token:
  assumes "toggleUserStatus req_user i (JBool False) db = (db', Inr r)
         \<or> deleteUser req_user i db = (db', Inr r')"
  shows "(\<exists>u. findById i db' = Some u \<and> \<not> isActive u \<and> refreshToken u = None)
       \<and> (\<forall>e now t. rt_id t = i \<longrightarrow>
            refreshToken_handler e now (Some t) db'
              = (db', Inl (AppError ''Invalid refresh token'' 401)))"
proof -
  define f where "f = (\<lambda>x::user. x\<lparr>isActive := False, refreshToken := None\<rparr>)"
  have f: "\<And>x. uid (f x) = uid x" "\<And>x. \<not> isActive (f x)" "\<And>x. refreshToken (f x) = None"
    by (simp_all add: f_def)
  have "\<exists>u. findById i db = Some u \<and> db' = updateById i f db"
    using assms unfolding f_def
    by (auto simp: toggleUserStatus_def deleteUser_def save_def Let_def dest: findById_uid
          split: option.splits if_splits sum.splits)
  then obtain u where u: "findById i db = Some u" and d: "db' = updateById i f db"
    by blast
  have s: "findById i db' = Some (f u)"
    unfolding d using u f(1) by (simp add: findById_updateById)
  then have "\<exists>u. findById i db' = Some u \<and> \<not> isActive u \<and> refreshToken u = None"
    using f by simp
  moreover have "refreshToken_handler e now (Some t) db'
              = (db', Inl (AppError ''Invalid refresh token'' 401))" if "rt_id t = i" for e now t
    using s that f(3)
    by (auto simp: refreshToken_handler_def findByRefreshToken_def jwt_verify_refresh_def
          createError_def split: option.splits)
  ultimately show ?thesis by blast
qed

text \<open>
  C8 on the sample collection: \<open>root\<close> deactivates Alice, who holds the token of second
  100, by the toggle and by the soft delete; her token is refused one second later.
\<close>

theorem deactivation_clears_refresh_token_witness:
  "toggleUserStatus root 1 (JBool False) [aliceWithToken 100, root]
     = ([(aliceWithToken 100)\<lparr>isActive := False, refreshToken := None\<rparr>, root],
        Inr (200, (aliceWithToken 100)\<lparr>isActive := False, refreshToken := None\<rparr>))
   \<and> deleteUser root 1 [aliceWithToken 100, root]
     = ([(aliceWithToken 100)\<lparr>isActive := False, refreshToken := None\<rparr>, root], Inr 200)
   \<and> rt_id (generateRefreshToken sampleEnv 100 1) = 1
   \<and> refreshToken_handler sampleEnv 101 (Some (generateRefreshToken sampleEnv 100 1))
        [(aliceWithToken 100)\<lparr>isActive := False, refreshToken := None\<rparr>, root]
     = ([(aliceWithToken 100)\<lparr>isActive := False, refreshToken := None\<rparr>, root],
        Inl (AppError ''Invalid refresh token'' 401))"
proof -
  have t: "toggleUserStatus root 1 (JBool False) [aliceWithToken 100, root]
     = ([(aliceWithToken 100)\<lparr>isActive := False, refreshToken := None\<rparr>, root],
        Inr (200, (aliceWithToken 100)\<lparr>isActive := False, refreshToken := None\<rparr>))"
    by (simp add: toggleUserStatus_def findById_def sample_defs sample_strings validator_defs
          Let_def)
  have d: "deleteUser root 1 [aliceWithToken 100, root]
     = ([(aliceWithToken 100)\<lparr>isActive := False, refreshToken := None\<rparr>, root], Inr 200)"
    by (simp add: deleteUser_def findById_def sample_defs)
  have i: "rt_id (generateRefreshToken sampleEnv 100 1) = 1"
    by (simp add: generateRefreshToken_def)
  from deactivation_clears_refresh_token [OF disjI1 [OF t]]
       deactivation_clears_refresh_token [OF disjI2 [OF d]] t d i
  show ?thesis by simp
qed

subsection \<open>Administrators acting on their own account\<close>

text \<open>
  C9: when the caller is an administrator and targets the caller's own id, the delete
  and the status toggle (whatever value the body carries) both end in an error and the
  collection is unchanged. The status is 400 when the account is in the collection (404
  is the only other case, a caller whose account is gone).
\<close>

theorem admin_self_target_rejected:
  assumes "role req_user = ''admin''"
  shows "(\<exists>err. deleteUser req_user (uid req_user) db = (db, Inl err)
            \<and> (statusCode err = 400 \<or> statusCode err = 404)
            \<and> (findById (uid req_user) db \<noteq> None \<longrightarrow> statusCode err = 400))
       \<and> (\<exists>err. toggleUserStatus req_user (uid req_user) v db = (db, Inl err)
            \<and> (statusCode err = 400 \<or> statusCode err = 404)
            \<and> (findById (uid req_user) db \<noteq> None \<longrightarrow> statusCode err = 400))"
proof (intro conjI)
  show "\<exists>err. deleteUser req_user (uid req_user) db = (db, Inl err)
            \<and> (statusCode err = 400 \<or> statusCode err = 404)
            \<and> (findById (uid req_user) db \<noteq> None \<longrightarrow> statusCode err = 400)"
    using assms
    by (auto simp: deleteUser_def createError_def dest: findById_uid split: option.splits)
  show "\<exists>err. toggleUserStatus req_user (uid req_user) v db = (db, Inl err)
            \<and> (statusCode err = 400 \<or> statusCode err = 404)
            \<and> (findById (uid req_user) db \<noteq> None \<longrightarrow> statusCode err = 400)"
    by (cases v)
       (auto simp: toggleUserStatus_def createError_def dest: findById_uid split: option.splits)
qed

text \<open>C9 on the sample collection: \<open>root\<close> tries to delete and to deactivate \<open>root\<close>.\<close>

theorem admin_self_target_rejected_witness:
  "role root = ''admin'' \<and> findById (uid root) [alice, root] \<noteq> None
   \<and> deleteUser root (uid root) [alice, root]
     = ([alice, root], Inl (AppError ''Admin cannot delete their own account'' 400))
   \<and> toggleUserStatus root (uid root) (JBool False) [alice, root]
     = ([alice, root], Inl (AppError ''Admin cannot change their own account status'' 400))"
proof -
  have r: "role root = ''admin''" by (simp add: root_def)
  have f: "findById (uid root) [alice, root] \<noteq> None"
    by (simp add: findById_def sample_defs)
  have "deleteUser root (uid root) [alice, root]
     = ([alice, root], Inl (AppError ''Admin cannot delete their own account'' 400))"
    "toggleUserStatus root (uid root) (JBool False) [alice, root]
     = ([alice, root], Inl (AppError ''Admin cannot change their own account status'' 400))"
    by (simp_all add: deleteUser_def toggleUserStatus_def findById_def createError_def
          sample_defs)
  with admin_self_target_rejected [OF r, of "[alice, root]" "JBool False"] r f
  show ?thesis by simp
qed

subsection \<open>Profile updates by a standard account\<close>

lemma updateData_ignores:
  "role req_user \<noteq> ''admin'' \<Longrightarrow>
     updateData req_user b = updateData req_user (b\<lparr>ub_role := None, ub_isActive := None\<rparr>)"
  by (simp add: updateData_def)

lemma uid_applyUpdate: "uid (applyUpdate d u) = uid u"
  by (simp add: applyUpdate_def)

text \<open>
  C10: for a caller whose role is not administrator, a profile update gives the same
  outcome and the same collection as the same request without \<^verbatim>\<open>role\<close> and
  \<^verbatim>\<open>isActive\<close>; when it succeeds, the stored account differs from the old one in name,
  phone, address and avatar at most, role and active flag included, and no other account
  changes; and when the caller updates the caller's own account and the remaining fields
  pass the validators, it does succeed, whatever \<^verbatim>\<open>role\<close> and \<^verbatim>\<open>isActive\<close> were sent.
\<close>

theorem updateUser_ignores_role_and_isActive:
  assumes "role req_user \<noteq> ''admin''"
  shows "updateUser req_user i b db
           = updateUser req_user i (b\<lparr>ub_role := None, ub_isActive := None\<rparr>) db
       \<and> (\<forall>db' st u'. updateUser req_user i b db = (db', Inr (st, u')) \<longrightarrow>
            (\<exists>u. findById i db = Some u \<and> findById i db' = Some u'
                \<and> u' = u\<lparr>name := name u', phone := phone u', address := address u',
                         avatar := avatar u'\<rparr>
                \<and> role u' = role u \<and> isActive u' = isActive u)
            \<and> (\<forall>j. j \<noteq> i \<longrightarrow> findById j db' = findById j db))
       \<and> (\<forall>u. findById i db = Some u \<and> uid req_user = i
              \<and> updateErrors (b\<lparr>ub_role := None, ub_isActive := None\<rparr>) = [] \<longrightarrow>
            (\<exists>db' u'. updateUser req_user i b db = (db', Inr (200, u'))))"
proof (intro conjI allI impI)
  show "updateUser req_user i b db
           = updateUser req_user i (b\<lparr>ub_role := None, ub_isActive := None\<rparr>) db"
    unfolding updateUser_def updateData_ignores [OF assms, of b, symmetric] ..
next
  fix db' st u'
  assume ok: "updateUser req_user i b db = (db', Inr (st, u'))"
  let ?d = "updateData req_user b"
  from ok obtain u where u: "findById i db = Some u"
    and d: "db' = updateById i (applyUpdate ?d) db"
    and u': "findById i db' = Some u'"
    by (auto simp: updateUser_def findByIdAndUpdate_def Let_def
          split: option.splits if_splits sum.splits)
  have "findById i db' = Some (applyUpdate ?d u)"
    unfolding d using u by (simp add: findById_updateById uid_applyUpdate)
  with u' have e: "u' = applyUpdate ?d u" by simp
  have "u' = u\<lparr>name := name u', phone := phone u', address := address u', avatar := avatar u'\<rparr>"
    "role u' = role u" "isActive u' = isActive u"
    using assms unfolding e by (simp_all add: applyUpdate_def updateData_def)
  with u u' show "\<exists>u. findById i db = Some u \<and> findById i db' = Some u'
                \<and> u' = u\<lparr>name := name u', phone := phone u', address := address u',
                         avatar := avatar u'\<rparr>
                \<and> role u' = role u \<and> isActive u' = isActive u"
    by blast
  fix j assume "j \<noteq> i"
  then show "findById j db' = findById j db"
    unfolding d by (simp add: findById_updateById_other uid_applyUpdate)
next
  fix u
  assume a: "findById i db = Some u \<and> uid req_user = i
              \<and> updateErrors (b\<lparr>ub_role := None, ub_isActive := None\<rparr>) = []"
  have "updateErrors (updateData req_user b) = []"
    using a assms by (simp add: updateErrors_def updateData_def)
  moreover have "findById i (updateById i (applyUpdate (updateData req_user b)) db)
       = Some (applyUpdate (updateData req_user b) u)"
    using a by (simp add: findById_updateById uid_applyUpdate)
  moreover have "uid u = i" using a by (auto dest: findById_uid)
  ultimately show "\<exists>db' u'. updateUser req_user i b db = (db', Inr (200, u'))"
    using a by (simp add: updateUser_def findByIdAndUpdate_def Let_def)
qed

text \<open>
  C10 on the sample collection: Alice sends a new name together with
  \<^verbatim>\<open>role: 'admin'\<close> and \<^verbatim>\<open>isActive: false\<close>; only the name is stored.
\<close>

theorem updateUser_ignores_role_and_isActive_witness:
  "role alice \<noteq> ''admin''
   \<and> findById 1 [alice, root] = Some alice \<and> uid alice = 1
   \<and> updateErrors (escalatingBody\<lparr>ub_role := None, ub_isActive := None\<rparr>) = []
   \<and> updateUser alice 1 escalatingBody [alice, root]
     = ([alice\<lparr>name := ''Alicia''\<rparr>, root], Inr (200, alice\<lparr>name := ''Alicia''\<rparr>))
   \<and> role (alice\<lparr>name := ''Alicia''\<rparr>) = role alice
   \<and> isActive (alice\<lparr>name := ''Alicia''\<rparr>) = isActive alice
   \<and> findById 2 [alice\<lparr>name := ''Alicia''\<rparr>, root] = findById 2 [alice, root]"
proof -
  have r: "role alice \<noteq> ''admin''" by (simp add: alice_def)
  have f: "findById 1 [alice, root] = Some alice \<and> uid alice = 1
      \<and> updateErrors (escalatingBody\<lparr>ub_role := None, ub_isActive := None\<rparr>) = []"
    by (simp add: findById_def updateErrors_def validate_user_name_def sample_defs
          sample_strings)
  have ok: "updateUser alice 1 escalatingBody [alice, root]
     = ([alice\<lparr>name := ''Alicia''\<rparr>, root], Inr (200, alice\<lparr>name := ''Alicia''\<rparr>))"
    by (simp add: updateUser_def findByIdAndUpdate_def updateErrors_def updateData_def
          applyUpdate_def validate_user_name_def findById_def sample_defs sample_strings
          Let_def)
  from updateUser_ignores_role_and_isActive [OF r, of 1 escalatingBody "[alice, root]"]
  have "findById 2 [alice\<lparr>name := ''Alicia''\<rparr>, root] = findById 2 [alice, root]"
    "role (alice\<lparr>name := ''Alicia''\<rparr>) = role alice"
    "isActive (alice\<lparr>name := ''Alicia''\<rparr>) = isActive alice"
    using ok f by auto
  with r f ok show ?thesis by simp
qed

subsection \<open>Product collection and sample evaluation\<close>

lemma findProductById_update:
  "(\<And>x. pid (f x) = pid x) \<Longrightarrow>
     findProductById i (updateProductById i f db) = map_option f (findProductById i db)"
  by (induction db) (auto simp: findProductById_def)

lemma findProductById_update_other:
  "j \<noteq> i \<Longrightarrow> (\<And>x. pid (f x) = pid x) \<Longrightarrow>
     findProductById j (updateProductById i f db) = findProductById j db"
  by (induction db) (auto simp: findProductById_def)

lemma findProductById_pid: "findProductById i db = Some p \<Longrightarrow> pid p = i"
  by (auto simp: findProductById_def find_Some_iff)

lemma pid_preSave: "pid (preSave p) = pid p" and stock_preSave: "stock (preSave p) = stock p"
  by (simp_all add: preSave_def)

lemma rounded_mantissa_nonneg: "0 \<le> a \<Longrightarrow> 0 \<le> rounded_mantissa a e"
  by (simp add: rounded_mantissa_def round_half_even_def Let_def pos_imp_zdiv_nonneg_iff)

lemma round_double_number: "round_double M e \<noteq> NotANumber"
  by (simp add: round_double_def Let_def)

lemma round_double_sign:
  assumes "0 \<le> M"
  shows "\<not> less_zero (round_double M e) \<and> round_double M e \<noteq> NotANumber"
  using assms rounded_mantissa_nonneg [of "\<bar>M\<bar>" e]
  by (simp add: round_double_def Let_def)

lemma js_add_sign:
  assumes "\<not> less_zero x" "x \<noteq> NotANumber" "\<not> less_zero y" "y \<noteq> NotANumber"
  shows "\<not> less_zero (js_add x y) \<and> js_add x y \<noteq> NotANumber"
proof (cases x; cases y)
  fix m1 e1 m2 e2
  assume x: "x = Dyadic m1 e1" and y: "y = Dyadic m2 e2"
  with assms have "0 \<le> m1 * 2 ^ nat (e1 - min e1 e2) + m2 * 2 ^ nat (e2 - min e1 e2)"
    by simp
  then show ?thesis unfolding x y by (simp add: Let_def round_double_sign)
qed (use assms in auto)

lemma Math_max_0_sign: "\<not> less_zero (Math_max_0 x)"
  by (cases x) (simp_all add: Math_max_0_def)

lemma js_sub_number:
  assumes "x \<noteq> NotANumber" "y \<noteq> NotANumber" "\<not> (x = PlusInf \<and> y = PlusInf)"
    "\<not> (x = MinusInf \<and> y = MinusInf)"
  shows "js_sub x y \<noteq> NotANumber"
  using assms by (cases x; cases y) (simp_all add: js_sub_def Let_def round_double_number)

lemma Math_max_0_number: "x \<noteq> NotANumber \<Longrightarrow> Math_max_0 x \<noteq> NotANumber"
  by (simp add: Math_max_0_def)

lemma round_double_exact:
  assumes "\<bar>M\<bar> < 2 ^ 53"
  shows "round_double M 0 = Dyadic M 0"
proof -
  have b: "bitlen \<bar>M\<bar> \<le> 53" using assms by (simp add: bitlen_le_iff_power)
  then have "dropped_bits \<bar>M\<bar> 0 \<le> 0" by (simp add: dropped_bits_def)
  then have "rounded_mantissa \<bar>M\<bar> 0 = \<bar>M\<bar>" "rounded_exponent \<bar>M\<bar> 0 = 0"
    by (simp_all add: rounded_mantissa_def rounded_exponent_def)
  with b show ?thesis by (simp add: round_double_def Let_def)
qed

lemma js_add_integers:
  "\<bar>m + k\<bar> < 2 ^ 53 \<Longrightarrow> js_add (Dyadic m 0) (Dyadic k 0) = Dyadic (m + k) 0"
  by (simp add: round_double_exact)

lemma js_sub_integers:
  "\<bar>m - k\<bar> < 2 ^ 53 \<Longrightarrow>
     Math_max_0 (js_sub (Dyadic m 0) (Dyadic k 0)) = Dyadic (max 0 (m - k)) 0"
  by (simp add: js_sub_def round_double_exact Math_max_0_def max_def)

lemma productErrors_stock:
  "productErrors p = [] \<Longrightarrow> \<not> less_zero n \<Longrightarrow> n \<noteq> NotANumber \<Longrightarrow>
     productErrors (p\<lparr>stock := n, updatedBy := w\<rparr>) = []"
  by (auto simp: productErrors_def validate_stock_def split: option.splits)

lemma productErrors_stock_sign:
  "productErrors p = [] \<Longrightarrow> \<not> less_zero (stock p) \<and> stock p \<noteq> NotANumber"
  by (simp add: productErrors_def validate_stock_def split: if_splits)

lemma updateStock_ok:
  assumes p: "findProductById i db = Some p" and v: "productErrors p = []"
    and a: "\<not> less_zero a" and op: "op \<in> set [''set'', ''add'', ''subtract'']"
    and n: "newStock op (stock p) a = Some n" and nn: "n \<noteq> NotANumber"
    and ns: "\<not> less_zero n"
  shows "updateStock req_user i (JNum a) (JStr op) db
           = (updateProductById i (\<lambda>x. preSave (x\<lparr>stock := n, updatedBy := Some (uid req_user)\<rparr>)) db,
              Inr (200, preSave (p\<lparr>stock := n, updatedBy := Some (uid req_user)\<rparr>)))"
proof -
  have "productErrors (p\<lparr>stock := n, updatedBy := Some (uid req_user)\<rparr>) = []"
    using v ns nn by (rule productErrors_stock)
  moreover have "pid p = i" using p by (rule findProductById_pid)
  ultimately show ?thesis
    using p a op n by (simp add: updateStock_def save_product_def)
qed

lemmas product_sample_defs = gallery1_def gallery2_def gallery2_saved_def emptyBody_def
  widgetBody_def widget_def gadget_def root_def

lemma product_strings:
  "trim ''Widget'' = ''Widget''" "trim ''Acme'' = ''Acme''" "trim ''wid-1'' = ''wid-1''"
  "toUpperCase ''wid-1'' = ''WID-1''" "trim ''WID-1'' = ''WID-1''"
  "toUpperCase ''WID-1'' = ''WID-1''"
  by code_simp+

lemmas product_validator_defs = productErrors_def productUpdateErrors_def
  validate_product_name_def validate_description_def validate_price_def
  validate_comparePrice_def comparePriceValidator_def validate_category_def categories_def
  validate_brand_def validate_sku_def validate_stock_def validate_images_def

lemma forEach_gallery2: "forEach_isPrimary 0 gallery2 = gallery2_saved"
  by (simp add: forEach_isPrimary.simps [of _ "_ # _"] forEach_isPrimary.simps [of _ "[]"]
        gallery2_def gallery2_saved_def)

subsection \<open>Stock updates\<close>

text \<open>
  C4, as stated, fails. A stored product can break its own schema: an update of the
  price alone leaves the sample product \<open>gadget\<close> with price 100 above its compare-at
  price 50, and the save of a valid stock update on it is refused by the validation
  with 400, the stock unchanged. And the sum is a sum of doubles: adding 1 to a stock
  of 2 to the 53 stores 2 to the 53.
\<close>

theorem updateStock_counterexample:
  "updateProduct root 1 (emptyBody\<lparr>pb_price := Some 100\<rparr>) [gadget]
     = ([gadget\<lparr>price := 100, updatedBy := Some 2\<rparr>],
        Inr (200, gadget\<lparr>price := 100, updatedBy := Some 2\<rparr>))
   \<and> updateStock root 1 (JNum (Dyadic 5 0)) (JStr ''set'')
        [gadget\<lparr>price := 100, updatedBy := Some 2\<rparr>]
     = ([gadget\<lparr>price := 100, updatedBy := Some 2\<rparr>],
        Inl (AppError
          ''Compare price should be greater than or equal to the selling price'' 400))
   \<and> updateStock root 1 (JNum (Dyadic 1 0)) (JStr ''add'')
        [widget\<lparr>stock := Dyadic 9007199254740992 0\<rparr>]
     = ([widget\<lparr>stock := Dyadic 4503599627370496 1, updatedBy := Some 2\<rparr>],
        Inr (200, widget\<lparr>stock := Dyadic 4503599627370496 1, updatedBy := Some 2\<rparr>))"
proof -
  have s: "js_add (Dyadic 9007199254740992 0) (Dyadic 1 0) = Dyadic 4503599627370496 1"
    by code_simp
  show ?thesis
    by (simp add: updateProduct_def updateStock_def save_product_def newStock_def s
          findProductById_def applyProductUpdate_def preSave_def preSave_images_def
          validationError_def createError_def product_sample_defs product_validator_defs
          del: js_add.simps)
qed

text \<open>
  C4, amended: a stock update whose amount is not a number or is negative, or whose
  operation is given and is not one of \<^verbatim>\<open>set\<close>, \<^verbatim>\<open>add\<close>, \<^verbatim>\<open>subtract\<close>, fails with
  400 and changes nothing; with a valid amount and operation and no such product it
  fails with 404 and changes nothing. Otherwise, when the stored product satisfies its
  schema and the amount is a number (and the call is not the subtraction of infinity
  from an infinite stock), the call succeeds and the stored stock is the amount for
  \<^verbatim>\<open>set\<close> (also when the operation is absent), the double-precision sum of old stock
  and amount for \<^verbatim>\<open>add\<close>, and \<^verbatim>\<open>Math.max(0, old - amount)\<close> in double precision for
  \<^verbatim>\<open>subtract\<close>; it is never below zero, and no other product changes. On integers the
  sum and the difference are exact as long as they stay below 2 to the 53 in absolute
  value.
\<close>

theorem updateStock_spec:
  "(((\<forall>a. stock_body \<noteq> JNum a) \<or> (\<exists>a. stock_body = JNum a \<and> less_zero a)
      \<or> operation_body \<notin> {JUndefined, JStr ''set'', JStr ''add'', JStr ''subtract''})
     \<longrightarrow> (\<exists>err. updateStock req_user i stock_body operation_body db = (db, Inl err)
             \<and> statusCode err = 400))
   \<and> (stock_body = JNum a \<and> \<not> less_zero a
       \<and> operation_body \<in> {JUndefined, JStr ''set'', JStr ''add'', JStr ''subtract''}
       \<and> findProductById i db = None
     \<longrightarrow> updateStock req_user i stock_body operation_body db
           = (db, Inl (AppError ''Product not found'' 404)))
   \<and> (stock_body = JNum a \<and> \<not> less_zero a \<and> a \<noteq> NotANumber
       \<and> operation_body \<in> {JUndefined, JStr ''set'', JStr ''add'', JStr ''subtract''}
       \<and> findProductById i db = Some p \<and> productErrors p = []
       \<and> \<not> (operation_body = JStr ''subtract'' \<and> stock p = PlusInf \<and> a = PlusInf)
     \<longrightarrow> (\<exists>db' p'. updateStock req_user i stock_body operation_body db = (db', Inr (200, p'))
             \<and> findProductById i db' = Some p'
             \<and> stock p' = (if operation_body = JStr ''add'' then js_add (stock p) a
                            else if operation_body = JStr ''subtract''
                              then Math_max_0 (js_sub (stock p) a)
                            else a)
             \<and> \<not> less_zero (stock p') \<and> stock p' \<noteq> NotANumber
             \<and> (\<forall>j. j \<noteq> i \<longrightarrow> findProductById j db' = findProductById j db)))
   \<and> (\<bar>m + k\<bar> < 2 ^ 53 \<longrightarrow> js_add (Dyadic m 0) (Dyadic k 0) = Dyadic (m + k) 0)
   \<and> (\<bar>m - k\<bar> < 2 ^ 53 \<longrightarrow>
        Math_max_0 (js_sub (Dyadic m 0) (Dyadic k 0)) = Dyadic (max 0 (m - k)) 0)"
proof -
  have A: "\<exists>err. updateStock req_user i stock_body operation_body db = (db, Inl err)
             \<and> statusCode err = 400"
    if "(\<forall>a. stock_body \<noteq> JNum a) \<or> (\<exists>a. stock_body = JNum a \<and> less_zero a)
      \<or> operation_body \<notin> {JUndefined, JStr ''set'', JStr ''add'', JStr ''subtract''}"
    using that
    by (cases stock_body; cases operation_body)
       (auto simp: updateStock_def createError_def)
  have B: "updateStock req_user i stock_body operation_body db
           = (db, Inl (AppError ''Product not found'' 404))"
    if "stock_body = JNum a \<and> \<not> less_zero a
       \<and> operation_body \<in> {JUndefined, JStr ''set'', JStr ''add'', JStr ''subtract''}
       \<and> findProductById i db = None"
    using that by (auto simp: updateStock_def createError_def)
  have C: "\<exists>db' p'. updateStock req_user i stock_body operation_body db = (db', Inr (200, p'))
             \<and> findProductById i db' = Some p'
             \<and> stock p' = (if operation_body = JStr ''add'' then js_add (stock p) a
                            else if operation_body = JStr ''subtract''
                              then Math_max_0 (js_sub (stock p) a)
                            else a)
             \<and> \<not> less_zero (stock p') \<and> stock p' \<noteq> NotANumber
             \<and> (\<forall>j. j \<noteq> i \<longrightarrow> findProductById j db' = findProductById j db)"
    if h: "stock_body = JNum a \<and> \<not> less_zero a \<and> a \<noteq> NotANumber
       \<and> operation_body \<in> {JUndefined, JStr ''set'', JStr ''add'', JStr ''subtract''}
       \<and> findProductById i db = Some p \<and> productErrors p = []
       \<and> \<not> (operation_body = JStr ''subtract'' \<and> stock p = PlusInf \<and> a = PlusInf)"
  proof -
    define op where "op = (case operation_body of JStr s \<Rightarrow> s | _ \<Rightarrow> ''set'')"
    have op: "op \<in> set [''set'', ''add'', ''subtract'']" using h by (auto simp: op_def)
    define n where "n = (if op = ''add'' then js_add (stock p) a
                         else if op = ''subtract'' then Math_max_0 (js_sub (stock p) a)
                         else a)"
    have n: "newStock op (stock p) a = Some n" using op by (auto simp: newStock_def n_def)
    from h have sp: "\<not> less_zero (stock p)" "stock p \<noteq> NotANumber"
      by (auto dest: productErrors_stock_sign)
    have inf: "op = ''subtract'' \<Longrightarrow> \<not> (stock p = PlusInf \<and> a = PlusInf)"
      using h by (auto simp: op_def split: js.splits)
    have minf: "\<not> (stock p = MinusInf \<and> a = MinusInf)" using sp by auto
    have ns: "\<not> less_zero n"
      using h sp by (auto simp: n_def js_add_sign Math_max_0_sign)
    have "js_add (stock p) a \<noteq> NotANumber"
      using h sp by (simp add: js_add_sign)
    moreover have "Math_max_0 (js_sub (stock p) a) \<noteq> NotANumber" if "op = ''subtract''"
      using h sp inf [OF that] minf by (intro Math_max_0_number js_sub_number) auto
    ultimately have nn: "n \<noteq> NotANumber"
      using h by (auto simp: n_def)
    let ?f = "\<lambda>x. preSave (x\<lparr>stock := n, updatedBy := Some (uid req_user)\<rparr>)"
    have same: "updateStock req_user i stock_body operation_body db
        = updateStock req_user i (JNum a) (JStr op) db"
      using h by (auto simp: updateStock_def op_def)
    have run: "updateStock req_user i stock_body operation_body db
        = (updateProductById i ?f db, Inr (200, ?f p))"
      unfolding same using h op n nn ns by (intro updateStock_ok) auto
    have pidf: "\<And>x. pid (?f x) = pid x" by (simp add: pid_preSave)
    have st: "findProductById i (updateProductById i ?f db) = Some (?f p)"
      using h by (simp add: findProductById_update [OF pidf])
    have other: "\<forall>j. j \<noteq> i \<longrightarrow>
        findProductById j (updateProductById i ?f db) = findProductById j db"
      by (simp add: findProductById_update_other [OF _ pidf])
    have val: "stock (?f p) = (if operation_body = JStr ''add'' then js_add (stock p) a
                            else if operation_body = JStr ''subtract''
                              then Math_max_0 (js_sub (stock p) a)
                            else a)"
      using h by (auto simp: stock_preSave n_def op_def)
    have "\<not> less_zero (stock (?f p))" "stock (?f p) \<noteq> NotANumber"
      using ns nn by (simp_all add: stock_preSave)
    with run st other val show ?thesis by blast
  qed
  from A B C js_add_integers js_sub_integers show ?thesis by blast
qed

text \<open>
  The amended C4 on the sample product with stock 3: subtracting 10 stores 0 and
  adding 10 stores 13; a negative amount, a string amount and an unknown operation are
  refused with 400, and an unknown product with 404.
\<close>

theorem updateStock_spec_witness:
  "updateStock root 1 (JNum (Dyadic 10 0)) (JStr ''subtract'') [widget]
     = ([widget\<lparr>stock := Dyadic 0 0, updatedBy := Some 2\<rparr>],
        Inr (200, widget\<lparr>stock := Dyadic 0 0, updatedBy := Some 2\<rparr>))
   \<and> updateStock root 1 (JNum (Dyadic 10 0)) (JStr ''add'') [widget]
     = ([widget\<lparr>stock := Dyadic 13 0, updatedBy := Some 2\<rparr>],
        Inr (200, widget\<lparr>stock := Dyadic 13 0, updatedBy := Some 2\<rparr>))
   \<and> findProductById 1 [widget] = Some widget
   \<and> productErrors widget = [] \<and> stock widget = Dyadic 3 0
   \<and> updateStock root 1 (JNum (Dyadic (- 1) 0)) (JStr ''set'') [widget]
     = ([widget], Inl (AppError ''Stock must be a positive number'' 400))
   \<and> updateStock root 1 (JStr ''5'') JUndefined [widget]
     = ([widget], Inl (AppError ''Stock must be a positive number'' 400))
   \<and> updateStock root 1 (JNum (Dyadic 5 0)) (JStr ''multiply'') [widget]
     = ([widget], Inl (AppError ''Operation must be one of: set, add, subtract'' 400))
   \<and> findProductById 7 [widget] = None
   \<and> updateStock root 7 (JNum (Dyadic 5 0)) (JStr ''set'') [widget]
     = ([widget], Inl (AppError ''Product not found'' 404))"
proof -
  have v: "productErrors widget = []" and s: "stock widget = Dyadic 3 0"
    by (simp_all add: product_sample_defs product_validator_defs)
  have f: "findProductById 1 [widget] = Some widget" "findProductById 7 [widget] = None"
    by (simp_all add: findProductById_def widget_def)
  have e: "updateStock root 1 (JNum (Dyadic (- 1) 0)) (JStr ''set'') [widget]
     = ([widget], Inl (AppError ''Stock must be a positive number'' 400))"
    "updateStock root 1 (JStr ''5'') JUndefined [widget]
     = ([widget], Inl (AppError ''Stock must be a positive number'' 400))"
    "updateStock root 1 (JNum (Dyadic 5 0)) (JStr ''multiply'') [widget]
     = ([widget], Inl (AppError ''Operation must be one of: set, add, subtract'' 400))"
    by (simp_all add: updateStock_def createError_def)
  note spec = updateStock_spec [where req_user = root and db = "[widget]" and p = widget
      and m = 3 and k = 10 and a = "Dyadic 10 0"]
  have sub: "Math_max_0 (js_sub (Dyadic 3 0) (Dyadic 10 0)) = Dyadic 0 0"
    and add: "js_add (Dyadic 3 0) (Dyadic 10 0) = Dyadic 13 0"
    using spec [of "JNum (Dyadic 10 0)" "JStr ''add''" 1] by simp_all
  have r: "updateStock root 1 (JNum (Dyadic 10 0)) (JStr ''subtract'') [widget]
     = ([widget\<lparr>stock := Dyadic 0 0, updatedBy := Some 2\<rparr>],
        Inr (200, widget\<lparr>stock := Dyadic 0 0, updatedBy := Some 2\<rparr>))"
    "updateStock root 1 (JNum (Dyadic 10 0)) (JStr ''add'') [widget]
     = ([widget\<lparr>stock := Dyadic 13 0, updatedBy := Some 2\<rparr>],
        Inr (200, widget\<lparr>stock := Dyadic 13 0, updatedBy := Some 2\<rparr>))"
    by (simp_all add: updateStock_def save_product_def newStock_def sub add
          findProductById_def preSave_def preSave_images_def product_sample_defs
          product_validator_defs del: js_add.simps)
  have nf: "updateStock root 7 (JNum (Dyadic 5 0)) (JStr ''set'') [widget]
     = ([widget], Inl (AppError ''Product not found'' 404))"
    using updateStock_spec [where req_user = root and db = "[widget]" and i = 7
        and stock_body = "JNum (Dyadic 5 0)" and operation_body = "JStr ''set''"
        and a = "Dyadic 5 0"] f
    by simp
  from r f v s e nf show ?thesis by simp
qed

subsection \<open>Pagination\<close>

lemma ceil_div_quotient:
  assumes "1 \<le> limit"
  shows "\<exists>n. ceil_div count limit = Fin n \<and> is_ceil_quotient n count limit"
proof -
  define n where "n = \<lceil>real_of_int count / real_of_int limit\<rceil>"
  have l: "0 < real_of_int limit" using assms by simp
  have "real_of_int n - 1 < real_of_int count / real_of_int limit"
    and "real_of_int count / real_of_int limit \<le> real_of_int n"
    unfolding n_def by linarith+
  then have "(real_of_int n - 1) * real_of_int limit < real_of_int count"
    and "real_of_int count \<le> real_of_int n * real_of_int limit"
    using l by (simp_all add: pos_less_divide_eq pos_divide_le_eq)
  then have "(n - 1) * limit < count" and "count \<le> n * limit"
    by (metis of_int_1 of_int_diff of_int_less_iff of_int_mult,
        metis of_int_le_iff of_int_mult)
  moreover have "ceil_div count limit = Fin n" using assms by (simp add: ceil_div_def n_def)
  ultimately show ?thesis by (auto simp: is_ceil_quotient_def)
qed

lemma is_ceil_quotient_zero: "1 \<le> limit \<Longrightarrow> is_ceil_quotient n 0 limit \<Longrightarrow> n = 0"
proof -
  assume l: "1 \<le> limit" and q: "is_ceil_quotient n 0 limit"
  from q have a: "(n - 1) * limit < 0" and b: "0 \<le> n * limit"
    by (simp_all add: is_ceil_quotient_def)
  from b l have "0 \<le> n" by (simp add: zero_le_mult_iff)
  moreover from a l have "n - 1 < 0" by (simp add: mult_less_0_iff)
  ultimately show "n = 0" by simp
qed

lemma paginate_properties:
  assumes "1 \<le> limit"
  shows "\<exists>n. totalPages (paginate page limit count) = Fin n
           \<and> is_ceil_quotient n count limit
           \<and> hasNextPage (paginate page limit count) = (page < n)
           \<and> hasPrevPage (paginate page limit count) = (page > 1)
           \<and> (page = 1 \<longrightarrow> \<not> hasPrevPage (paginate page limit count))
           \<and> (page = n \<longrightarrow> \<not> hasNextPage (paginate page limit count))
           \<and> (count = 0 \<longrightarrow> n = 0 \<and> (1 \<le> page \<longrightarrow> \<not> hasNextPage (paginate page limit count)))"
proof -
  from ceil_div_quotient [OF assms, of count] obtain n
    where n: "ceil_div count limit = Fin n" and q: "is_ceil_quotient n count limit" by blast
  have "count = 0 \<longrightarrow> n = 0" using q assms by (auto dest: is_ceil_quotient_zero)
  with n q show ?thesis
    by (intro exI [of _ n]) (auto simp: paginate_def Let_def)
qed

text \<open>
  C5, as stated, fails on the user listing, whose route validates no query: with
  \<^verbatim>\<open>limit=0\<close> and 25 accounts \<^verbatim>\<open>totalPages\<close> is infinite and every page has a next
  page; with no account \<^verbatim>\<open>totalPages\<close> is \<^verbatim>\<open>NaN\<close>.
\<close>

theorem pagination_limit_zero_counterexample:
  "getAllUsers_pagination (Some 1) (Some 0) 25
     = \<lparr>currentPage = 1, totalPages = PosInfinity, totalCount = 25, hasNextPage = True,
        hasPrevPage = False\<rparr>
   \<and> getAllUsers_pagination (Some 1) (Some 0) 0
     = \<lparr>currentPage = 1, totalPages = NaN, totalCount = 0, hasNextPage = False,
        hasPrevPage = False\<rparr>"
  by (simp add: getAllUsers_pagination_def paginate_def ceil_div_def)

text \<open>
  C5, amended: for a page size of at least 1 (the validator of the product route admits
  no other, and both defaults are such), both listings report as \<^verbatim>\<open>totalPages\<close> the
  quotient of count and page size rounded up, \<^verbatim>\<open>hasNextPage\<close> exactly when the page
  is below it and \<^verbatim>\<open>hasPrevPage\<close> exactly when the page is above 1; in particular
  there is no previous page on page 1, no next page on the last page, and an empty
  result has zero pages.
\<close>

theorem pagination_math:
  assumes "case limit of None \<Rightarrow> True | Some l \<Rightarrow> 1 \<le> l"
  shows "(\<exists>n. totalPages (getAllProducts_pagination page limit count) = Fin n
           \<and> is_ceil_quotient n count (case limit of None \<Rightarrow> 12 | Some l \<Rightarrow> l)
           \<and> hasNextPage (getAllProducts_pagination page limit count)
               = ((case page of None \<Rightarrow> 1 | Some v \<Rightarrow> v) < n)
           \<and> hasPrevPage (getAllProducts_pagination page limit count)
               = ((case page of None \<Rightarrow> 1 | Some v \<Rightarrow> v) > 1)
           \<and> ((case page of None \<Rightarrow> 1 | Some v \<Rightarrow> v) = 1
                \<longrightarrow> \<not> hasPrevPage (getAllProducts_pagination page limit count))
           \<and> ((case page of None \<Rightarrow> 1 | Some v \<Rightarrow> v) = n
                \<longrightarrow> \<not> hasNextPage (getAllProducts_pagination page limit count))
           \<and> (count = 0 \<longrightarrow> n = 0
                \<and> (1 \<le> (case page of None \<Rightarrow> 1 | Some v \<Rightarrow> v)
                     \<longrightarrow> \<not> hasNextPage (getAllProducts_pagination page limit count))))
       \<and> (\<exists>n. totalPages (getAllUsers_pagination page limit count) = Fin n
           \<and> is_ceil_quotient n count (case limit of None \<Rightarrow> 10 | Some l \<Rightarrow> l)
           \<and> hasNextPage (getAllUsers_pagination page limit count)
               = ((case page of None \<Rightarrow> 1 | Some v \<Rightarrow> v) < n)
           \<and> hasPrevPage (getAllUsers_pagination page limit count)
               = ((case page of None \<Rightarrow> 1 | Some v \<Rightarrow> v) > 1)
           \<and> ((case page of None \<Rightarrow> 1 | Some v \<Rightarrow> v) = 1
                \<longrightarrow> \<not> hasPrevPage (getAllUsers_pagination page limit count))
           \<and> ((case page of None \<Rightarrow> 1 | Some v \<Rightarrow> v) = n
                \<longrightarrow> \<not> hasNextPage (getAllUsers_pagination page limit count))
           \<and> (count = 0 \<longrightarrow> n = 0
                \<and> (1 \<le> (case page of None \<Rightarrow> 1 | Some v \<Rightarrow> v)
                     \<longrightarrow> \<not> hasNextPage (getAllUsers_pagination page limit count))))"
proof -
  have 1: "1 \<le> (case limit of None \<Rightarrow> 12 | Some l \<Rightarrow> l)"
    and 2: "1 \<le> (case limit of None \<Rightarrow> 10 | Some l \<Rightarrow> l)"
    using assms by (auto split: option.splits)
  show ?thesis
    unfolding getAllProducts_pagination_def getAllUsers_pagination_def
    using paginate_properties [OF 1, of "case page of None \<Rightarrow> 1 | Some v \<Rightarrow> v" count]
          paginate_properties [OF 2, of "case page of None \<Rightarrow> 1 | Some v \<Rightarrow> v" count]
    by (intro conjI) assumption+
qed

text \<open>
  The amended C5 at 25 records in pages of 10, on the last page, and at an empty result
  with the defaults.
\<close>

theorem pagination_math_witness:
  "(case Some 10 of None \<Rightarrow> True | Some l \<Rightarrow> (1::int) \<le> l)
   \<and> getAllProducts_pagination (Some 3) (Some 10) 25
     = \<lparr>currentPage = 3, totalPages = Fin 3, totalCount = 25, hasNextPage = False,
        hasPrevPage = True\<rparr>
   \<and> getAllUsers_pagination (Some 3) (Some 10) 25
     = \<lparr>currentPage = 3, totalPages = Fin 3, totalCount = 25, hasNextPage = False,
        hasPrevPage = True\<rparr>
   \<and> is_ceil_quotient 3 25 10
   \<and> getAllUsers_pagination None None 0
     = \<lparr>currentPage = 1, totalPages = Fin 0, totalCount = 0, hasNextPage = False,
        hasPrevPage = False\<rparr>"
proof -
  have h: "case Some 10 of None \<Rightarrow> True | Some l \<Rightarrow> (1::int) \<le> l" by simp
  have e: "getAllProducts_pagination (Some 3) (Some 10) 25
     = \<lparr>currentPage = 3, totalPages = Fin 3, totalCount = 25, hasNextPage = False,
        hasPrevPage = True\<rparr>"
    "getAllUsers_pagination (Some 3) (Some 10) 25
     = \<lparr>currentPage = 3, totalPages = Fin 3, totalCount = 25, hasNextPage = False,
        hasPrevPage = True\<rparr>"
    "getAllUsers_pagination None None 0
     = \<lparr>currentPage = 1, totalPages = Fin 0, totalCount = 0, hasNextPage = False,
        hasPrevPage = False\<rparr>"
    by (simp_all add: getAllProducts_pagination_def getAllUsers_pagination_def paginate_def
          ceil_div_def)
  from pagination_math [OF h, of "Some 3" 25] e have "is_ceil_quotient 3 25 10"
    by simp
  with h e show ?thesis by simp
qed

subsection \<open>The primary image\<close>

lemma findIndex_first:
  "k < length xs \<Longrightarrow> P (xs ! k) \<Longrightarrow> (\<forall>j<k. \<not> P (xs ! j)) \<Longrightarrow> findIndex P xs = int k"
proof (induction xs arbitrary: k)
  case Nil
  then show ?case by simp
next
  case (Cons x xs)
  show ?case
  proof (cases k)
    case 0
    with Cons.prems show ?thesis by simp
  next
    case (Suc m)
    with Cons.prems have "\<not> P x" by auto
    moreover have "findIndex P xs = int m"
      using Cons.prems Suc by (intro Cons.IH) auto
    ultimately show ?thesis using Suc by (simp add: Let_def)
  qed
qed

lemma filter_nonempty_first:
  "filter P xs \<noteq> [] \<Longrightarrow> \<exists>k<length xs. P (xs ! k) \<and> (\<forall>j<k. \<not> P (xs ! j))"
proof -
  assume "filter P xs \<noteq> []"
  then obtain x where "List.find P xs = Some x"
    by (cases "List.find P xs") (auto simp: find_None_iff filter_empty_conv)
  then show ?thesis unfolding find_Some_iff by blast
qed

lemma forEach_isPrimary_result:
  assumes "k < length imgs" "isPrimary (imgs ! k)" "\<forall>j<k. \<not> isPrimary (imgs ! j)"
  shows "length (forEach_isPrimary i imgs) = length imgs
       \<and> (\<forall>j<length imgs. forEach_isPrimary i imgs ! j
             = (if j < i then imgs ! j else (imgs ! j)\<lparr>isPrimary := (j = k)\<rparr>))"
  using assms
proof (induction i imgs rule: forEach_isPrimary.induct)
  case (1 index imgs)
  have fi: "findIndex isPrimary imgs = int k"
    using "1.prems" by (intro findIndex_first) auto
  show ?case
  proof (cases "index < length imgs")
    case False
    then show ?thesis by (simp add: forEach_isPrimary.simps [of index imgs])
  next
    case True
    let ?imgs = "imgs[index := (imgs ! index)\<lparr>isPrimary := (int index = findIndex isPrimary imgs)\<rparr>]"
    have step: "?imgs = imgs[index := (imgs ! index)\<lparr>isPrimary := (index = k)\<rparr>]"
      using fi by simp
    have pk: "isPrimary (?imgs ! k)"
      using "1.prems" True unfolding step by (simp add: nth_list_update)
    have pj: "\<forall>j<k. \<not> isPrimary (?imgs ! j)"
      using "1.prems" True unfolding step by (auto simp: nth_list_update)
    have IH: "length (forEach_isPrimary (Suc index) ?imgs) = length ?imgs
       \<and> (\<forall>j<length ?imgs. forEach_isPrimary (Suc index) ?imgs ! j
             = (if j < Suc index then ?imgs ! j else (?imgs ! j)\<lparr>isPrimary := (j = k)\<rparr>))"
      using "1.IH" [OF True] "1.prems"(1) pk pj by simp
    have unf: "forEach_isPrimary index imgs = forEach_isPrimary (Suc index) ?imgs"
      using True by (subst forEach_isPrimary.simps) simp
    show ?thesis
      unfolding unf using IH True unfolding step
      by (auto simp: nth_list_update less_Suc_eq)
  qed
qed

lemma one_true_filter:
  assumes "k < length xs" "\<forall>j<length xs. P (xs ! j) = (j = k)"
  shows "length (filter P xs) = 1"
proof -
  have "{i. i < length xs \<and> P (xs ! i)} = {k}" using assms by auto
  then show ?thesis by (simp add: length_filter_conv_card)
qed

lemma preSave_images_flags:
  assumes "imgs \<noteq> []"
  shows "\<exists>k<length imgs. length (preSave_images imgs) = length imgs
           \<and> (\<forall>j<length imgs. preSave_images imgs ! j = (imgs ! j)\<lparr>isPrimary := (j = k)\<rparr>)
           \<and> (if filter isPrimary imgs = [] then k = 0
               else isPrimary (imgs ! k) \<and> (\<forall>j<k. \<not> isPrimary (imgs ! j)))"
proof (cases "filter isPrimary imgs = []")
  case True
  then have none: "\<forall>j<length imgs. \<not> isPrimary (imgs ! j)"
    by (auto simp: filter_empty_conv)
  have "preSave_images imgs = imgs[0 := (imgs ! 0)\<lparr>isPrimary := True\<rparr>]"
    using True assms by (simp add: preSave_images_def)
  with assms True none show ?thesis
    by (intro exI [of _ 0]) (auto simp: nth_list_update)
next
  case False
  then obtain k where k: "k < length imgs" "isPrimary (imgs ! k)" "\<forall>j<k. \<not> isPrimary (imgs ! j)"
    using filter_nonempty_first by blast
  show ?thesis
  proof (cases "length (filter isPrimary imgs) > 1")
    case True
    then have "preSave_images imgs = forEach_isPrimary 0 imgs"
      using assms False by (simp add: preSave_images_def Let_def)
    with forEach_isPrimary_result [OF k, of 0] k False show ?thesis
      by (intro exI [of _ k]) auto
  next
    case F: False
    with False have one: "length (filter isPrimary imgs) = 1"
      by (cases "filter isPrimary imgs") auto
    have same: "preSave_images imgs = imgs"
      using one assms False by (simp add: preSave_images_def Let_def)
    have "card {i. i < length imgs \<and> isPrimary (imgs ! i)} = 1"
      using one by (simp add: length_filter_conv_card)
    then obtain m where m: "{i. i < length imgs \<and> isPrimary (imgs ! i)} = {m}"
      by (auto simp: card_1_singleton_iff)
    have "k \<in> {i. i < length imgs \<and> isPrimary (imgs ! i)}" using k by simp
    with m have km: "m = k" by simp
    have "\<forall>j<length imgs. isPrimary (imgs ! j) = (j = k)"
      using m km by auto
    then have "\<forall>j<length imgs. imgs ! j = (imgs ! j)\<lparr>isPrimary := (j = k)\<rparr>"
      by simp
    with same k False show ?thesis
      by (intro exI [of _ k]) auto
  qed
qed

lemma preSave_images_one_primary:
  assumes "imgs \<noteq> []"
  shows "length (filter isPrimary (preSave_images imgs)) = 1
       \<and> map url (preSave_images imgs) = map url imgs
       \<and> map alt (preSave_images imgs) = map alt imgs
       \<and> (filter isPrimary imgs = [] \<longrightarrow> isPrimary (preSave_images imgs ! 0))"
proof -
  from preSave_images_flags [OF assms] obtain k where
    k: "k < length imgs" and len: "length (preSave_images imgs) = length imgs"
    and nth: "\<forall>j<length imgs. preSave_images imgs ! j = (imgs ! j)\<lparr>isPrimary := (j = k)\<rparr>"
    and first: "if filter isPrimary imgs = [] then k = 0
               else isPrimary (imgs ! k) \<and> (\<forall>j<k. \<not> isPrimary (imgs ! j))"
    by blast
  have "length (filter isPrimary (preSave_images imgs)) = 1"
    using k len nth by (intro one_true_filter [of k]) auto
  moreover have "map url (preSave_images imgs) = map url imgs"
    "map alt (preSave_images imgs) = map alt imgs"
    using len nth by (auto intro!: nth_equalityI)
  moreover have "filter isPrimary imgs = [] \<longrightarrow> isPrimary (preSave_images imgs ! 0)"
    using first nth k by auto
  ultimately show ?thesis by simp
qed

lemma save_product_preSave:
  "save_product p f db = Inr (db', p') \<Longrightarrow> p' = preSave (f p)"
  by (simp add: save_product_def split: if_splits)

lemma createProduct_preSave:
  assumes "createProduct req_user b db = (db', Inr (st, p'))"
  shows "\<exists>doc. p' = preSave doc"
proof -
  from assms have "Product_create (uid req_user) b db = Inr (db', p')"
    by (auto simp: createProduct_def split: option.splits sum.splits)
  then show ?thesis
    by (auto simp: Product_create_def Let_def split: option.splits if_splits)
qed

lemma updateStock_preSave:
  assumes "updateStock req_user i stock_body operation_body db = (db', Inr (st, p'))"
  shows "\<exists>doc. p' = preSave doc"
proof -
  from assms obtain p f where "save_product p f db = Inr (db', p')"
    by (cases stock_body; cases operation_body)
       (auto simp: updateStock_def split: option.splits sum.splits if_splits)
  then show ?thesis by (auto dest: save_product_preSave)
qed

lemma toggleProductStatus_preSave:
  assumes "toggleProductStatus req_user i isActive_body db = (db', Inr (st, p'))"
  shows "\<exists>doc. p' = preSave doc"
proof -
  from assms obtain p f where "save_product p f db = Inr (db', p')"
    by (cases isActive_body)
       (auto simp: toggleProductStatus_def split: option.splits sum.splits)
  then show ?thesis by (auto dest: save_product_preSave)
qed

lemma save_paths_one_primary:
  assumes "createProduct req_user b db = (db', Inr (st, p'))
         \<or> updateStock req_user i stock_body operation_body db = (db', Inr (st, p'))
         \<or> toggleProductStatus req_user i isActive_body db = (db', Inr (st, p'))"
    and "images p' \<noteq> []"
  shows "length (filter isPrimary (images p')) = 1"
proof -
  have "\<exists>doc. p' = preSave doc"
    using assms(1)
    by (elim disjE)
       (erule createProduct_preSave updateStock_preSave toggleProductStatus_preSave)+
  then obtain doc where "p' = preSave doc" ..
  then have p': "images p' = preSave_images (images doc)" by (simp add: preSave_def)
  have "images doc \<noteq> []"
  proof
    assume "images doc = []"
    then have "images p' = []" unfolding p' by (simp add: preSave_images_def)
    with assms(2) show False by simp
  qed
  then show ?thesis unfolding p' by (simp add: preSave_images_one_primary)
qed

text \<open>
  C6 holds on every path that ends in \<^verbatim>\<open>save()\<close> (lemma \<open>save_paths_one_primary\<close>)
  and fails on \<^verbatim>\<open>updateProduct\<close>, whose \<^verbatim>\<open>findByIdAndUpdate\<close> runs no \<^verbatim>\<open>save\<close> hook:
  an update that sends two primary images stores both as primary, while a create with
  the same two images stores one.
\<close>

theorem updateProduct_keeps_two_primary_images:
  "updateProduct root 1 (emptyBody\<lparr>pb_images := Some gallery2\<rparr>) [widget]
     = ([widget\<lparr>images := gallery2, updatedBy := Some 2\<rparr>],
        Inr (200, widget\<lparr>images := gallery2, updatedBy := Some 2\<rparr>))
   \<and> length (filter isPrimary (images (widget\<lparr>images := gallery2, updatedBy := Some 2\<rparr>))) = 2
   \<and> createProduct root (widgetBody\<lparr>pb_images := Some gallery2\<rparr>) []
     = ([widget\<lparr>images := gallery2_saved\<rparr>], Inr (201, widget\<lparr>images := gallery2_saved\<rparr>))
   \<and> length (filter isPrimary (images (widget\<lparr>images := gallery2_saved\<rparr>))) = 1"
  by (simp add: updateProduct_def createProduct_def Product_create_def newProductId_def
        findProductById_def applyProductUpdate_def preSave_def preSave_images_def
        forEach_gallery2 [unfolded gallery2_def gallery2_saved_def]
        product_sample_defs product_strings product_validator_defs Let_def)

subsection \<open>The compare-at price\<close>

lemma Product_create_stored:
  assumes "Product_create creator b db = Inr (db', q)"
  shows "db' = db @ [q] \<and> (case comparePrice q of None \<Rightarrow> True | Some c \<Rightarrow> c = 0 \<or> price q \<le> c)"
proof -
  from assms obtain doc where q: "q = preSave doc" and d: "db' = db @ [preSave doc]"
    and v: "productErrors doc = []"
    by (auto simp: Product_create_def Let_def split: option.splits if_splits)
  from v have "case comparePrice doc of None \<Rightarrow> True | Some c \<Rightarrow> c = 0 \<or> price doc \<le> c"
    by (auto simp: productErrors_def validate_comparePrice_def comparePriceValidator_def
          split: option.splits if_splits)
  then show ?thesis using q d by (auto simp: preSave_def split: option.splits)
qed

text \<open>
  C7, as stated, fails: the validator lets a compare-at price of 0 pass, so a product
  with price 10 and compare-at price 0 is created; and an update that raises the price
  alone does not look at the stored compare-at price.
\<close>

theorem compare_price_counterexample:
  "createProduct root widgetBody [] = ([widget], Inr (201, widget))
   \<and> comparePrice widget = Some 0 \<and> price widget = 10
   \<and> updateProduct root 1 (emptyBody\<lparr>pb_price := Some 100\<rparr>) [gadget]
     = ([gadget\<lparr>price := 100, updatedBy := Some 2\<rparr>],
        Inr (200, gadget\<lparr>price := 100, updatedBy := Some 2\<rparr>))
   \<and> comparePrice (gadget\<lparr>price := 100, updatedBy := Some 2\<rparr>) = Some 50
   \<and> price (gadget\<lparr>price := 100, updatedBy := Some 2\<rparr>) = 100"
  by (simp add: createProduct_def Product_create_def newProductId_def preSave_def
        preSave_images_def updateProduct_def findProductById_def applyProductUpdate_def
        product_sample_defs product_strings product_validator_defs Let_def)

text \<open>
  C7, amended: a create whose compare-at price is present, not zero and below the
  selling price, and an update whose body carries such a compare-at price, fail with an
  error and leave the collection as it is; every product that a create stores has no
  compare-at price, the compare-at price 0, or one that is at least the price.
\<close>

theorem comparePrice_validation:
  "(pb_comparePrice b = Some c \<and> c \<noteq> 0 \<and> pb_price b = Some p \<and> c < p
      \<longrightarrow> (\<exists>err. createProduct req_user b db = (db, Inl err)
              \<and> statusCode err \<in> {400, 409, 500}))
   \<and> (pb_comparePrice b = Some c \<and> c \<noteq> 0 \<and> findProductById i db = Some q
        \<and> c < (case pb_price b of None \<Rightarrow> price q | Some v \<Rightarrow> v)
      \<longrightarrow> (\<exists>err. updateProduct req_user i b db = (db, Inl err)
              \<and> statusCode err \<in> {400, 409}))
   \<and> (createProduct req_user b db = (db', Inr (st, q'))
      \<longrightarrow> db' = db @ [q']
          \<and> (case comparePrice q' of None \<Rightarrow> True | Some c' \<Rightarrow> c' = 0 \<or> price q' \<le> c'))"
proof -
  have A: "\<exists>err. createProduct req_user b db = (db, Inl err)
              \<and> statusCode err \<in> {400, 409, 500}"
    if h: "pb_comparePrice b = Some c \<and> c \<noteq> 0 \<and> pb_price b = Some p \<and> c < p"
  proof -
    have "\<exists>errs. Product_create (uid req_user) b db = Inl (validationError errs)"
      using h
      by (auto simp: Product_create_def Let_def productErrors_def validate_comparePrice_def
            comparePriceValidator_def split: option.splits)
    then show ?thesis
      by (auto simp: createProduct_def validationError_def createError_def
            split: option.splits)
  qed
  have B: "\<exists>err. updateProduct req_user i b db = (db, Inl err)
              \<and> statusCode err \<in> {400, 409}"
    if h: "pb_comparePrice b = Some c \<and> c \<noteq> 0 \<and> findProductById i db = Some q
        \<and> c < (case pb_price b of None \<Rightarrow> price q | Some v \<Rightarrow> v)"
  proof -
    from h have "productUpdateErrors b \<noteq> []"
      by (simp add: productUpdateErrors_def validate_comparePrice_def
            comparePriceValidator_def)
    with h show ?thesis
      by (simp add: updateProduct_def validationError_def createError_def)
  qed
  have C: "db' = db @ [q']
          \<and> (case comparePrice q' of None \<Rightarrow> True | Some c' \<Rightarrow> c' = 0 \<or> price q' \<le> c')"
    if ok: "createProduct req_user b db = (db', Inr (st, q'))"
  proof -
    from ok have "Product_create (uid req_user) b db = Inr (db', q')"
      by (auto simp: createProduct_def split: option.splits sum.splits)
    from Product_create_stored [OF this] show ?thesis .
  qed
  from A B C show ?thesis by blast
qed

text \<open>
  The amended C7 on the sample data: a compare-at price of 5 under a price of 10 is
  refused by create and by update; a compare-at price of 12 is stored.
\<close>

theorem comparePrice_validation_witness:
  "pb_comparePrice (widgetBody\<lparr>pb_comparePrice := Some 5\<rparr>) = Some 5 \<and> (5::real) \<noteq> 0
   \<and> pb_price (widgetBody\<lparr>pb_comparePrice := Some 5\<rparr>) = Some 10 \<and> (5::real) < 10
   \<and> createProduct root (widgetBody\<lparr>pb_comparePrice := Some 5\<rparr>) []
     = ([], Inl (AppError
          ''Compare price should be greater than or equal to the selling price'' 400))
   \<and> findProductById 1 [widget] = Some widget
   \<and> updateProduct root 1 (widgetBody\<lparr>pb_comparePrice := Some 5\<rparr>) [widget]
     = ([widget], Inl (AppError
          ''Compare price should be greater than or equal to the selling price'' 400))
   \<and> createProduct root (widgetBody\<lparr>pb_comparePrice := Some 12\<rparr>) []
     = ([widget\<lparr>comparePrice := Some 12\<rparr>], Inr (201, widget\<lparr>comparePrice := Some 12\<rparr>))
   \<and> price (widget\<lparr>comparePrice := Some 12\<rparr>) \<le> 12"
proof -
  have c: "createProduct root (widgetBody\<lparr>pb_comparePrice := Some 5\<rparr>) []
     = ([], Inl (AppError
          ''Compare price should be greater than or equal to the selling price'' 400))"
    by (simp add: createProduct_def Product_create_def newProductId_def
        validationError_def createError_def
        product_sample_defs product_strings product_validator_defs Let_def)
  have f: "findProductById 1 [widget] = Some widget"
    by (simp add: findProductById_def widget_def)
  have u: "updateProduct root 1 (widgetBody\<lparr>pb_comparePrice := Some 5\<rparr>) [widget]
     = ([widget], Inl (AppError
          ''Compare price should be greater than or equal to the selling price'' 400))"
    by (simp add: updateProduct_def findProductById_def validationError_def createError_def
        product_sample_defs product_strings product_validator_defs Let_def)
  have k: "createProduct root (widgetBody\<lparr>pb_comparePrice := Some 12\<rparr>) []
     = ([widget\<lparr>comparePrice := Some 12\<rparr>], Inr (201, widget\<lparr>comparePrice := Some 12\<rparr>))"
    by (simp add: createProduct_def Product_create_def newProductId_def preSave_def
        preSave_images_def product_sample_defs product_strings product_validator_defs Let_def)
  have h: "pb_comparePrice (widgetBody\<lparr>pb_comparePrice := Some 5\<rparr>) = Some 5 \<and> (5::real) \<noteq> 0
   \<and> pb_price (widgetBody\<lparr>pb_comparePrice := Some 5\<rparr>) = Some 10 \<and> (5::real) < 10"
    by (simp add: widgetBody_def)
  have "price (widget\<lparr>comparePrice := Some 12\<rparr>) \<le> 12"
    using comparePrice_validation
      [of "widgetBody\<lparr>pb_comparePrice := Some 12\<rparr>" 12 10 root "[]" 1 widget
          "[widget\<lparr>comparePrice := Some 12\<rparr>]" 201 "widget\<lparr>comparePrice := Some 12\<rparr>"] k
    by simp
  with c f u k h
    comparePrice_validation
      [of "widgetBody\<lparr>pb_comparePrice := Some 5\<rparr>" 5 10 root "[]" 1 widget]
  show ?thesis by simp
qed

end
